theory Spec2Isabelle
  imports Main "HOL-Library.Option_ord"
begin

section \<open>Strings\<close>

text \<open>
  A JavaScript string is a sequence of UTF-16 code units. Here a string is a
  \<^typ>\<open>string\<close>, and one \<^typ>\<open>char\<close> stands for one code unit in the range 0..255.
\<close>

text \<open>
  A value interpolated into a template literal: an absent (\<open>undefined\<close>) value is
  rendered as the text \<open>undefined\<close>.
\<close>

definition interp :: "string option \<Rightarrow> string" where
  "interp v = (case v of None \<Rightarrow> ''undefined'' | Some s \<Rightarrow> s)"

text \<open>\<open>s.split(c)\<close> for a separator of one character. The result is never empty.\<close>

fun str_split :: "char \<Rightarrow> string \<Rightarrow> string list" where
  "str_split c [] = [[]]"
| "str_split c (x # xs) =
     (if x = c then [] # str_split c xs
      else (case str_split c xs of [] \<Rightarrow> [[x]] | w # ws \<Rightarrow> (x # w) # ws))"

text \<open>\<open>xs[0]\<close>, interpolated: reading an empty array gives \<open>undefined\<close>.\<close>

definition first_elem :: "string list \<Rightarrow> string" where
  "first_elem xs = (case xs of [] \<Rightarrow> interp None | x # _ \<Rightarrow> x)"

text \<open>\<open>xs.pop()\<close>, used as a string: the last element.\<close>

fun pop :: "string list \<Rightarrow> string option" where
  "pop [] = None"
| "pop [x] = Some x"
| "pop (x # y # ys) = pop (y # ys)"

text \<open>
  \<open>s.replace(c, r)\<close> with a string pattern of one character: only the first
  occurrence is replaced. (The replacement texts used below contain no \<open>$\<close>, so they
  are inserted literally.)
\<close>

fun replace_first :: "char \<Rightarrow> string \<Rightarrow> string \<Rightarrow> string" where
  "replace_first c r [] = []"
| "replace_first c r (x # xs) = (if x = c then r @ xs else x # replace_first c r xs)"

section \<open>Object key derivation\<close>

text \<open>The character class \<open>[a-zA-Z0-9.-]\<close> of the sanitising pattern.\<close>

definition in_class :: "char \<Rightarrow> bool" where
  "in_class c =
     (let n = (of_char c :: nat) in
        (97 \<le> n \<and> n \<le> 122) \<or> (65 \<le> n \<and> n \<le> 90) \<or> (48 \<le> n \<and> n \<le> 57)
        \<or> c = CHR ''.'' \<or> c = CHR ''-'')"

text \<open>\<open>fileName.replace(/[^a-zA-Z0-9.-]/g, '_')\<close>: every code unit is looked at alone.\<close>

definition cleanFileName :: "string \<Rightarrow> string" where
  "cleanFileName fileName = map (\<lambda>c. if in_class c then c else CHR ''_'') fileName"

text \<open>
  \<open>generateS3Key(stage, userId, propertyId, fileName)\<close>. The first argument is the text
  that \<open>new Date().toISOString()\<close> returns at the call. \<open>paths[stage] || paths.pending\<close>
  is a lookup among the four own properties of \<open>paths\<close>, with the pending path for any
  other stage name. This holds for the stage names that are not properties of
  \<open>Object.prototype\<close>: for a name such as \<open>constructor\<close> or \<open>toString\<close> the lookup in the
  code finds the inherited property and returns it in place of a key. The handlers pass
  the literals \<open>approved_original\<close> and \<open>featured\<close> only, and no property below is about
  such a name.
\<close>

definition generateS3Key ::
  "string \<Rightarrow> string \<Rightarrow> string option \<Rightarrow> string option \<Rightarrow> string \<Rightarrow> string" where
  "generateS3Key isoNow stage userId propertyId fileName =
     (let timestamp = first_elem (str_split CHR ''T'' isoNow);
          clean = cleanFileName fileName;
          pending = ''pending-uploads/'' @ interp userId @ ''/property-'' @ interp propertyId
                      @ ''/images/'' @ clean;
          paths =
            [(''pending'', pending),
             (''approved_original'',
                ''approved-content/'' @ interp userId @ ''/property-'' @ interp propertyId
                  @ ''/original/'' @ clean),
             (''approved_edited'',
                ''approved-content/'' @ interp userId @ ''/property-'' @ interp propertyId
                  @ ''/edited/'' @ replace_first CHR ''.'' ''_enhanced.'' clean),
             (''featured'',
                ''featured-showcase/curated-properties/'' @ timestamp @ ''_'' @ clean)]
      in case map_of paths stage of
           None \<Rightarrow> pending
         | Some p \<Rightarrow> if p = [] then pending else p)"

section \<open>JSON values, responses, console output\<close>

datatype json =
    JUndefined
  | JNull
  | JBool bool
  | JNum int
  | JStr string
  | JArr "json list"
  | JObj "(string \<times> json) list"

definition opt_str :: "string option \<Rightarrow> json" where
  "opt_str v = (case v of None \<Rightarrow> JUndefined | Some s \<Rightarrow> JStr s)"

text \<open>
  \<open>res.status(code).json(obj)\<close>. The body is kept as the object handed to \<open>json\<close>; on
  the wire a field holding \<open>JUndefined\<close> is left out.
\<close>

record response =
  status :: nat
  body :: json

definition res_json :: "nat \<Rightarrow> (string \<times> json) list \<Rightarrow> response" where
  "res_json code kvs = \<lparr>status = code, body = JObj kvs\<rparr>"

text \<open>
  \<open>console.error(label, error)\<close>, and \<open>console.log\<close> of a line made of a label, a name
  and the clock reading printed with it.
\<close>

datatype console = ConsoleError string string | ConsoleLog string string int

text \<open>\<open>v || d\<close> on a value that is a string or absent: the empty string is falsy.\<close>

definition or_default :: "string option \<Rightarrow> string \<Rightarrow> string" where
  "or_default v d = (case v of None \<Rightarrow> d | Some s \<Rightarrow> if s = [] then d else s)"

text \<open>
  \<open>toLowerCase\<close> and \<open>trim\<close> on code units below 256: the capital letters are A-Z and
  the Latin-1 capitals 192..222 without the multiplication sign 215; white space is
  9..13, 32 and 160.
\<close>

definition lower_char :: "char \<Rightarrow> char" where
  "lower_char c =
     (let n = (of_char c :: nat) in
        if (65 \<le> n \<and> n \<le> 90) \<or> (192 \<le> n \<and> n \<le> 222 \<and> n \<noteq> 215)
        then char_of (n + 32) else c)"

definition toLowerCase :: "string \<Rightarrow> string" where
  "toLowerCase s = map lower_char s"

definition white_space :: "char \<Rightarrow> bool" where
  "white_space c = (let n = (of_char c :: nat) in (9 \<le> n \<and> n \<le> 13) \<or> n = 32 \<or> n = 160)"

definition trim :: "string \<Rightarrow> string" where
  "trim s = rev (dropWhile white_space (rev (dropWhile white_space s)))"

text \<open>
  \<open>n.toString()\<close> for a number that is an integer of magnitude below \<open>10^21\<close>, printed in
  decimal digits (from \<open>10^21\<close> on the code prints an exponent). It is used for the
  \<open>priority\<close> of a feature request, taken to be such a number or absent; a fraction, or a
  \<open>null\<close> on which \<open>toString\<close> throws, is outside the model.
\<close>

function show_nat :: "nat \<Rightarrow> string" where
  "show_nat n =
     (if n < 10 then [char_of (48 + n)] else show_nat (n div 10) @ [char_of (48 + n mod 10)])"
  by pat_completeness auto
termination
  by (relation "measure id") auto

declare show_nat.simps [simp del]

definition show_int :: "int \<Rightarrow> string" where
  "show_int i = (if i < 0 then CHR ''-'' # show_nat (nat (- i)) else show_nat (nat i))"

section \<open>The admin session and its gates\<close>

text \<open>
  The session record of one client. A \<open>Date\<close> is its time value in milliseconds; a
  field never assigned is \<open>None\<close> (\<open>undefined\<close>). \<open>adminAuthenticated\<close> is only ever
  assigned \<open>true\<close> and only tested for truthiness, so it is a \<^typ>\<open>bool\<close>.
\<close>

record session =
  adminAuthenticated :: bool
  adminUsername :: "string option"
  adminEmail :: json
  loginTime :: "int option"
  lastActivity :: "int option"

text \<open>The session a client has before any login, and again after \<open>destroy\<close>.\<close>

definition fresh_session :: session where
  "fresh_session =
     \<lparr>adminAuthenticated = False, adminUsername = None, adminEmail = JUndefined,
      loginTime = None, lastActivity = None\<rparr>"

definition sessionTimeout :: int where
  "sessionTimeout = 2 * 60 * 60 * 1000"

text \<open>
  \<open>now - new Date(v) > sessionTimeout\<close>. With \<open>v\<close> undefined the date is invalid, the
  difference is \<open>NaN\<close>, and the comparison is false.
\<close>

definition idle_too_long :: "int \<Rightarrow> int option \<Rightarrow> bool" where
  "idle_too_long now v = (case v of None \<Rightarrow> False | Some t \<Rightarrow> now - t > sessionTimeout)"

text \<open>
  What a middleware does with the request: it calls \<open>next()\<close> with the session as it
  left it, or it answers; \<open>None\<close> is the session after \<open>req.session.destroy()\<close>.
\<close>

datatype gate = Next session | Respond response "session option"

definition session_expired :: response where
  "session_expired =
     res_json 401 [(''error'', JStr ''Session expired''), (''redirectTo'', JStr ''/admin/login'')]"

definition requireAuth :: "int \<Rightarrow> session \<Rightarrow> gate" where
  "requireAuth now s =
     (if \<not> adminAuthenticated s then
        Respond (res_json 401 [(''error'', JStr ''Authentication required''),
                               (''redirectTo'', JStr ''/admin/login'')]) (Some s)
      else if idle_too_long now
                (case lastActivity s of None \<Rightarrow> loginTime s | Some t \<Rightarrow> Some t) then
        Respond session_expired None
      else Next (s\<lparr>lastActivity := Some now\<rparr>))"

text \<open>The middleware mounted on \<open>/api/admin/*\<close>, ahead of the routes that follow it.\<close>

definition admin_prefilter :: "int \<Rightarrow> session \<Rightarrow> gate" where
  "admin_prefilter now s =
     (if adminAuthenticated s \<and> idle_too_long now (lastActivity s) then
        Respond session_expired None
      else Next s)"

text \<open>
  A guarded route runs both, each with its own clock reading: the middleware on
  \<open>/api/admin/*\<close>, then \<open>requireAuth\<close>.
\<close>

definition admin_gate :: "int \<Rightarrow> int \<Rightarrow> session \<Rightarrow> gate" where
  "admin_gate now1 now2 s =
     (case admin_prefilter now1 s of
        Respond r so \<Rightarrow> Respond r so
      | Next s' \<Rightarrow> requireAuth now2 s')"

text \<open>
  A sequence of requests of one client through \<open>requireAuth\<close>, at the given clock
  readings: the values of \<open>lastActivity\<close> after each request when every request is
  let through, \<open>None\<close> as soon as one is answered with an error.
\<close>

fun gate_run :: "session \<Rightarrow> int list \<Rightarrow> int option list option" where
  "gate_run s [] = Some []"
| "gate_run s (now # nows) =
     (case requireAuth now s of
        Respond r so \<Rightarrow> None
      | Next s' \<Rightarrow>
          (case gate_run s' nows of
             None \<Rightarrow> None
           | Some las \<Rightarrow> Some (lastActivity s' # las)))"

section \<open>Credentials and login\<close>

record env =
  ADMIN_SECRET_ID :: "string option"
  ADMIN_USERNAME :: "string option"
  ADMIN_PASSWORD_HASH :: "string option"
  ADMIN_EMAIL :: "string option"

text \<open>
  The three ways the \<open>try\<close> block of \<open>getAdminCredentials\<close> can end for a secret id:
  \<open>secretsClient.send\<close> rejects (network, missing secret, access); \<open>JSON.parse\<close> of
  \<open>response.SecretString\<close> throws (the text is not JSON, or there is no text); or
  \<open>JSON.parse\<close> returns a value.
\<close>

datatype secret_outcome = SendFails string | ParseFails string | Parsed json

definition fetch_secret :: "env \<Rightarrow> (string \<Rightarrow> secret_outcome) \<Rightarrow> string + json" where
  "fetch_secret e secrets =
     (case secrets (or_default (ADMIN_SECRET_ID e) ''prod/RentHabit/AdminAuth'') of
        SendFails err \<Rightarrow> Inl err
      | ParseFails err \<Rightarrow> Inl err
      | Parsed j \<Rightarrow> Inr j)"

definition fallback_credentials :: "env \<Rightarrow> json" where
  "fallback_credentials e =
     JObj [(''username'', JStr (or_default (ADMIN_USERNAME e) ''admin'')),
           (''passwordHash'',
              JStr (or_default (ADMIN_PASSWORD_HASH e)
                ''$2b$12$LQv3c1yqBWVHxkd0LHAkCOYz6TtxMQJqhN8/LewdhquMgGFbOvS0a'')),
           (''email'', JStr (or_default (ADMIN_EMAIL e) ''admin@renthabit.com''))]"

text \<open>
  The result is what the caller's \<open>await\<close> sees, \<open>Inl\<close> a rejection, together with the
  lines written to the console.
\<close>

definition getAdminCredentials ::
  "env \<Rightarrow> (string \<Rightarrow> secret_outcome) \<Rightarrow> (string + json) \<times> console list" where
  "getAdminCredentials e secrets =
     (case fetch_secret e secrets of
        Inr j \<Rightarrow> (Inr j, [])
      | Inl err \<Rightarrow>
          (Inr (fallback_credentials e),
           [ConsoleError ''Failed to retrieve admin credentials:'' err]))"

text \<open>
  Reading a property of a parsed JSON value: a \<open>TypeError\<close> on \<open>undefined\<close> and \<open>null\<close>,
  \<open>undefined\<close> where the value has no such property.
\<close>

definition property :: "json \<Rightarrow> string \<Rightarrow> string + json" where
  "property j k =
     (case j of
        JUndefined \<Rightarrow> Inl ''TypeError''
      | JNull \<Rightarrow> Inl ''TypeError''
      | JObj kvs \<Rightarrow> Inr (case map_of kvs k of None \<Rightarrow> JUndefined | Some v \<Rightarrow> v)
      | _ \<Rightarrow> Inr JUndefined)"

text \<open>
  \<open>username.toLowerCase().trim() === adminCreds.username.toLowerCase().trim()\<close>: only a
  string has \<open>toLowerCase\<close>.
\<close>

definition validUsername :: "json \<Rightarrow> string \<Rightarrow> string + bool" where
  "validUsername adminCreds u =
     (case property adminCreds ''username'' of
        Inl err \<Rightarrow> Inl err
      | Inr v \<Rightarrow>
          (case v of
             JStr cu \<Rightarrow> Inr (trim (toLowerCase u) = trim (toLowerCase cu))
           | _ \<Rightarrow> Inl ''TypeError''))"

text \<open>
  \<open>bcrypt.compare(password, adminCreds.passwordHash)\<close>. The comparison of a password
  with a hash is the library's, a parameter here; it rejects a hash that is not a
  string.
\<close>

definition validPassword :: "(string \<Rightarrow> string \<Rightarrow> bool) \<Rightarrow> json \<Rightarrow> string \<Rightarrow> string + bool" where
  "validPassword bcrypt_compare adminCreds p =
     (case property adminCreds ''passwordHash'' of
        Inl err \<Rightarrow> Inl err
      | Inr v \<Rightarrow>
          (case v of
             JStr h \<Rightarrow> Inr (bcrypt_compare p h)
           | _ \<Rightarrow> Inl ''data and hash must be strings''))"

text \<open>The fields read from \<open>req.body\<close> by the login handler, each a string or absent.\<close>

record login_body =
  username :: "string option"
  password :: "string option"

definition invalid_credentials :: response where
  "invalid_credentials = res_json 401 [(''error'', JStr ''Invalid credentials'')]"

definition service_unavailable :: response where
  "service_unavailable = res_json 500 [(''error'', JStr ''Authentication service unavailable'')]"

text \<open>
  The handler of \<open>POST /api/admin/auth/login\<close>, behind the rate limiter. \<open>clock k\<close> is
  the \<open>k\<close>-th reading of \<open>new Date()\<close> in the run. The result is the response, the
  session after the request, and the console output.
\<close>

definition login ::
  "env \<Rightarrow> (string \<Rightarrow> secret_outcome) \<Rightarrow> (string \<Rightarrow> string \<Rightarrow> bool) \<Rightarrow> (nat \<Rightarrow> int) \<Rightarrow>
     login_body \<Rightarrow> session \<Rightarrow> response \<times> session \<times> console list" where
  "login e secrets bcrypt_compare clock b s =
     (case (username b, password b) of
        (Some u, Some p) \<Rightarrow>
          if u = [] \<or> p = [] then
            (res_json 400 [(''error'', JStr ''Username and password required'')], s, [])
          else
            (case getAdminCredentials e secrets of
               (Inl err, out) \<Rightarrow>
                 (service_unavailable, s, out @ [ConsoleError ''Authentication error:'' err])
             | (Inr adminCreds, out) \<Rightarrow>
                 (case validUsername adminCreds u of
                    Inl err \<Rightarrow>
                      (service_unavailable, s,
                       out @ [ConsoleError ''Authentication error:'' err])
                  | Inr vu \<Rightarrow>
                      (case validPassword bcrypt_compare adminCreds p of
                         Inl err \<Rightarrow>
                           (service_unavailable, s,
                            out @ [ConsoleError ''Authentication error:'' err])
                       | Inr vp \<Rightarrow>
                           if vu \<and> vp then
                             (res_json 200
                                [(''success'', JBool True),
                                 (''message'', JStr ''Authentication successful''),
                                 (''redirectTo'', JStr ''/admin/dashboard'')],
                              s\<lparr>adminAuthenticated := True,
                                adminUsername :=
                                  (case property adminCreds ''username'' of
                                     Inr (JStr cu) \<Rightarrow> Some cu | _ \<Rightarrow> None),
                                adminEmail :=
                                  (case property adminCreds ''email'' of
                                     Inr v \<Rightarrow> v | Inl err \<Rightarrow> JUndefined),
                                loginTime := Some (clock 0),
                                lastActivity := Some (clock 1)\<rparr>,
                              out @ [ConsoleLog ''Admin login successful''
                                       (case property adminCreds ''username'' of
                                          Inr (JStr cu) \<Rightarrow> cu | _ \<Rightarrow> interp None)
                                       (clock 2)])
                           else
                             (invalid_credentials, s,
                              out @ [ConsoleLog ''Admin login failed'' u (clock 0)]))))
      | _ \<Rightarrow> (res_json 400 [(''error'', JStr ''Username and password required'')], s, []))"

section \<open>The object store\<close>

text \<open>
  The commands the module sends with \<open>s3Client.send\<close>: \<open>CopyObjectCommand\<close> with
  \<open>Bucket\<close>, \<open>CopySource\<close>, \<open>Key\<close> and \<open>Metadata\<close>; \<open>PutObjectCommand\<close> with \<open>Bucket\<close>,
  \<open>Key\<close>, \<open>Body\<close> and \<open>Metadata\<close>; \<open>ListObjectsV2Command\<close> with \<open>Bucket\<close>, \<open>Prefix\<close> and
  \<open>MaxKeys\<close>. The module imports no command that deletes.
\<close>

datatype s3command =
    CopyObjectCommand string string string "(string \<times> json) list"
  | PutObjectCommand string string string "(string \<times> json) list"
  | ListObjectsV2Command string string nat

datatype s3error = ServiceFailure | NoSuchKey

text \<open>
  The object store itself is a service outside the repository. The handlers are run
  against this model of it: the objects of all buckets, each under the path
  \<open>bucket/key\<close> (the form of a \<open>CopySource\<close>), and the commands received so far. A copy
  reads the object at its source and writes it at its destination, and fails when there
  is nothing at the source; a put writes the body; a listing changes nothing. Apart
  from that, the \<open>n\<close>-th command received fails when \<open>outage n\<close> holds (the network, the
  permissions of a bucket), and then nothing is written.
\<close>

record s3 =
  objects :: "string \<rightharpoonup> string"
  issued :: "s3command list"

definition send :: "(nat \<Rightarrow> bool) \<Rightarrow> s3command \<Rightarrow> s3 \<Rightarrow> s3error option \<times> s3" where
  "send outage cmd st =
     (let st' = st\<lparr>issued := issued st @ [cmd]\<rparr> in
        if outage (length (issued st)) then (Some ServiceFailure, st')
        else
          (case cmd of
             CopyObjectCommand b src k m \<Rightarrow>
               (case objects st src of
                  None \<Rightarrow> (Some NoSuchKey, st')
                | Some obj \<Rightarrow> (None, st'\<lparr>objects := (objects st)(b @ ''/'' @ k \<mapsto> obj)\<rparr>))
           | PutObjectCommand b k content m \<Rightarrow>
               (None, st'\<lparr>objects := (objects st)(b @ ''/'' @ k \<mapsto> content)\<rparr>)
           | ListObjectsV2Command b pre n \<Rightarrow> (None, st')))"

definition S3_BUCKETS_media :: string where
  "S3_BUCKETS_media = ''renthabit-media''"

definition S3_BUCKETS_web :: string where
  "S3_BUCKETS_web = ''renthabit-web-prod''"

section \<open>The content handlers\<close>

text \<open>
  The fields read from \<open>req.body\<close>, each a string or absent; \<open>priority\<close> is an integer or
  absent.
\<close>

record content_body =
  s3Key :: "string option"
  userId :: "string option"
  propertyId :: "string option"

record approve_body = content_body +
  adminNotes :: "string option"

record feature_body = content_body +
  priority :: "int option"
  position :: "string option"

text \<open>
  The handler of \<open>POST /api/admin/content/:contentId/approve\<close>, after the gate.
  \<open>clock k\<close> is the text of the \<open>k\<close>-th \<open>new Date().toISOString()\<close> of the run: the first
  is the one inside \<open>generateS3Key\<close>.
\<close>

definition approve ::
  "(nat \<Rightarrow> bool) \<Rightarrow> (nat \<Rightarrow> string) \<Rightarrow> session \<Rightarrow> string \<Rightarrow> approve_body \<Rightarrow> s3 \<Rightarrow>
     response \<times> s3" where
  "approve outage clock s contentId b st =
     (case s3Key b of
        None \<Rightarrow> (res_json 400 [(''error'', JStr ''S3 key required'')], st)
      | Some k \<Rightarrow>
          if k = [] then (res_json 400 [(''error'', JStr ''S3 key required'')], st)
          else
            (let fileName = interp (pop (str_split CHR ''/'' k));
                 originalKey =
                   generateS3Key (clock 0) ''approved_original'' (userId b) (propertyId b)
                     fileName
             in case send outage
                       (CopyObjectCommand S3_BUCKETS_media (S3_BUCKETS_media @ ''/'' @ k)
                          originalKey
                          [(''status'', JStr ''approved''),
                           (''approvedDate'', JStr (clock 1)),
                           (''adminNotes'', JStr (or_default (adminNotes b) [])),
                           (''approvedBy'', opt_str (adminUsername s))]) st of
                  (Some err, st') \<Rightarrow>
                    (res_json 500 [(''error'', JStr ''Failed to approve content'')], st')
                | (None, st') \<Rightarrow>
                    (res_json 200
                       [(''success'', JBool True),
                        (''message'', JStr ''Content approved successfully''),
                        (''originalKey'', JStr originalKey),
                        (''approvedBy'', opt_str (adminUsername s)),
                        (''s3Bucket'', JStr S3_BUCKETS_media)], st')))"

text \<open>The handler of \<open>POST /api/admin/content/:contentId/feature\<close>, after the gate.\<close>

definition feature ::
  "(nat \<Rightarrow> bool) \<Rightarrow> (nat \<Rightarrow> string) \<Rightarrow> session \<Rightarrow> string \<Rightarrow> feature_body \<Rightarrow> s3 \<Rightarrow>
     response \<times> s3" where
  "feature outage clock s contentId b st =
     (case s3Key b of
        None \<Rightarrow> (res_json 400 [(''error'', JStr ''S3 key required'')], st)
      | Some k \<Rightarrow>
          if k = [] then (res_json 400 [(''error'', JStr ''S3 key required'')], st)
          else
            (let fileName = interp (pop (str_split CHR ''/'' k));
                 featuredKey =
                   generateS3Key (clock 0) ''featured'' (userId b) (propertyId b) fileName
             in case send outage
                       (CopyObjectCommand S3_BUCKETS_media (S3_BUCKETS_media @ ''/'' @ k)
                          featuredKey
                          [(''status'', JStr ''featured''),
                           (''featuredDate'', JStr (clock 1)),
                           (''position'', JStr (case position b of None \<Rightarrow> ''gallery'' | Some v \<Rightarrow> v)),
                           (''priority'',
                              JStr (show_int (case priority b of None \<Rightarrow> 1 | Some n \<Rightarrow> n))),
                           (''featuredBy'', opt_str (adminUsername s))]) st of
                  (Some err, st1) \<Rightarrow>
                    (res_json 500 [(''error'', JStr ''Failed to feature content'')], st1)
                | (None, st1) \<Rightarrow>
                    (let publicKey =
                           ''assets/properties/'' @ interp (propertyId b) @ ''/'' @ fileName
                     in case send outage
                               (CopyObjectCommand S3_BUCKETS_web
                                  (S3_BUCKETS_media @ ''/'' @ k) publicKey
                                  [(''source'', JStr ''featured''),
                                   (''featuredDate'', JStr (clock 2))]) st1 of
                          (Some err, st2) \<Rightarrow>
                            (res_json 500 [(''error'', JStr ''Failed to feature content'')],
                             st2)
                        | (None, st2) \<Rightarrow>
                            (res_json 200
                               [(''success'', JBool True),
                                (''message'', JStr ''Content featured successfully''),
                                (''featuredKey'', JStr featuredKey),
                                (''publicKey'', JStr publicKey),
                                (''featuredBy'', opt_str (adminUsername s)),
                                (''buckets'',
                                   JObj [(''media'', JStr S3_BUCKETS_media),
                                         (''web'', JStr S3_BUCKETS_web)])], st2))))"

text \<open>
  The handler of \<open>POST /api/admin/content/:contentId/reject\<close>, after the gate. Its one
  clock reading is the text of \<open>rejectedAt\<close>.
\<close>

definition reject ::
  "(nat \<Rightarrow> string) \<Rightarrow> session \<Rightarrow> string \<Rightarrow> string option \<Rightarrow> s3 \<Rightarrow> response \<times> s3" where
  "reject clock s contentId rejectionReason st =
     (res_json 200
        [(''success'', JBool True),
         (''message'', JStr ''Content rejected''),
         (''contentId'', JStr contentId),
         (''rejectedBy'', opt_str (adminUsername s)),
         (''rejectedAt'', JStr (clock 0)),
         (''reason'', opt_str rejectionReason)], st)"

text \<open>
  A guarded route: the gate, then the handler with the session the gate passed on. The
  result is the response, the session after the request and the object store after it.
\<close>

definition guarded ::
  "int \<Rightarrow> int \<Rightarrow> session \<Rightarrow> (session \<Rightarrow> s3 \<Rightarrow> response \<times> s3) \<Rightarrow> s3 \<Rightarrow>
     response \<times> session option \<times> s3" where
  "guarded now1 now2 s handler st =
     (case admin_gate now1 now2 s of
        Respond r so \<Rightarrow> (r, so, st)
      | Next s' \<Rightarrow> (case handler s' st of (r, st') \<Rightarrow> (r, Some s', st')))"

definition post_approve ::
  "int \<Rightarrow> int \<Rightarrow> (nat \<Rightarrow> bool) \<Rightarrow> (nat \<Rightarrow> string) \<Rightarrow> session \<Rightarrow> string \<Rightarrow> approve_body \<Rightarrow>
     s3 \<Rightarrow> response \<times> session option \<times> s3" where
  "post_approve now1 now2 outage clock s contentId b st =
     guarded now1 now2 s (\<lambda>s'. approve outage clock s' contentId b) st"

definition post_feature ::
  "int \<Rightarrow> int \<Rightarrow> (nat \<Rightarrow> bool) \<Rightarrow> (nat \<Rightarrow> string) \<Rightarrow> session \<Rightarrow> string \<Rightarrow> feature_body \<Rightarrow>
     s3 \<Rightarrow> response \<times> session option \<times> s3" where
  "post_feature now1 now2 outage clock s contentId b st =
     guarded now1 now2 s (\<lambda>s'. feature outage clock s' contentId b) st"

definition post_reject ::
  "int \<Rightarrow> int \<Rightarrow> (nat \<Rightarrow> string) \<Rightarrow> session \<Rightarrow> string \<Rightarrow> string option \<Rightarrow> s3 \<Rightarrow>
     response \<times> session option \<times> s3" where
  "post_reject now1 now2 clock s contentId rejectionReason st =
     guarded now1 now2 s (\<lambda>s'. reject clock s' contentId rejectionReason) st"

section \<open>Notions used to state the properties\<close>

text \<open>
  The two character sets of the specification, written out character by character and
  not through the test the sanitiser makes: \<open>[A-Za-z0-9.-]\<close>, the characters a file name
  keeps, and \<open>[A-Za-z0-9._-]\<close>, the characters a sanitised file name may contain.
\<close>

definition allowed_chars :: string where
  "allowed_chars =
     ''abcdefghijklmnopqrstuvwxyz'' @ ''ABCDEFGHIJKLMNOPQRSTUVWXYZ'' @ ''0123456789'' @ ''.-''"

definition key_chars :: string where
  "key_chars =
     ''abcdefghijklmnopqrstuvwxyz'' @ ''ABCDEFGHIJKLMNOPQRSTUVWXYZ'' @ ''0123456789'' @ ''._-''"

definition key_safe :: "char \<Rightarrow> bool" where
  "key_safe c = (c \<in> set key_chars)"

text \<open>
  A credentials record, as \<open>login\<close> needs it: an object whose \<open>username\<close> and
  \<open>passwordHash\<close> are strings.
\<close>

definition is_credentials :: "json \<Rightarrow> bool" where
  "is_credentials j =
     (case j of
        JObj kvs \<Rightarrow>
          (case (map_of kvs ''username'', map_of kvs ''passwordHash'') of
             (Some (JStr u), Some (JStr h)) \<Rightarrow> True
           | _ \<Rightarrow> False)
      | _ \<Rightarrow> False)"

text \<open>
  A secret store that holds one secret: the request for that id ends as given, the
  request for any other id is rejected.
\<close>

definition single_secret :: "string \<Rightarrow> secret_outcome \<Rightarrow> string \<Rightarrow> secret_outcome" where
  "single_secret name outcome secretId =
     (if secretId = name then outcome else SendFails ''ResourceNotFoundException'')"

section \<open>Properties of the key derivation\<close>

lemma cleanFileName_length: "length (cleanFileName f) = length f"
  by (simp add: cleanFileName_def)

text \<open>
  The test of the pattern, on code-unit ranges, accepts exactly the characters of
  \<open>[A-Za-z0-9.-]\<close>: checked on each of the 256 characters.
\<close>

lemma in_class_all: "\<forall>c. in_class c = (c \<in> set allowed_chars)"
  by code_simp

lemma in_class_allowed: "in_class c = (c \<in> set allowed_chars)"
  using in_class_all by blast

lemma key_chars_allowed: "c \<in> set key_chars \<longleftrightarrow> c \<in> set allowed_chars \<or> c = CHR ''_''"
  by (auto simp add: key_chars_def allowed_chars_def)

lemma cleanFileName_nth:
  "i < length f \<Longrightarrow>
     cleanFileName f ! i = (if f ! i \<in> set allowed_chars then f ! i else CHR ''_'')"
  by (simp add: cleanFileName_def in_class_allowed)

lemma cleanFileName_safe: "list_all key_safe (cleanFileName f)"
  by (induction f)
     (simp_all add: cleanFileName_def key_safe_def key_chars_allowed in_class_allowed)

lemma key_safe_enhanced: "list_all key_safe ''_enhanced.''"
  by (simp add: key_safe_def key_chars_def)

lemma replace_first_safe:
  "list_all P r \<Longrightarrow> list_all P xs \<Longrightarrow> list_all P (replace_first c r xs)"
  by (induction xs) simp_all

lemma replace_first_absent: "c \<notin> set xs \<Longrightarrow> replace_first c r xs = xs"
  by (induction xs) auto

lemma replace_first_present:
  "c \<in> set xs \<Longrightarrow>
     replace_first c r xs = takeWhile (\<lambda>x. x \<noteq> c) xs @ r @ tl (dropWhile (\<lambda>x. x \<noteq> c) xs)"
  by (induction xs) auto

lemma generateS3Key_pending:
  "generateS3Key t ''pending'' u p f =
     ''pending-uploads/'' @ interp u @ ''/property-'' @ interp p @ ''/images/'' @ cleanFileName f"
  by (simp add: generateS3Key_def)

lemma generateS3Key_approved_original:
  "generateS3Key t ''approved_original'' u p f =
     ''approved-content/'' @ interp u @ ''/property-'' @ interp p @ ''/original/''
       @ cleanFileName f"
  by (simp add: generateS3Key_def)

lemma generateS3Key_approved_edited:
  "generateS3Key t ''approved_edited'' u p f =
     ''approved-content/'' @ interp u @ ''/property-'' @ interp p @ ''/edited/''
       @ replace_first CHR ''.'' ''_enhanced.'' (cleanFileName f)"
  by (simp add: generateS3Key_def)

lemma generateS3Key_featured:
  "generateS3Key t ''featured'' u p f =
     ''featured-showcase/curated-properties/'' @ first_elem (str_split CHR ''T'' t) @ ''_''
       @ cleanFileName f"
  by (simp add: generateS3Key_def)


text \<open>
  Claim C5. For each of the four stages \<open>pending\<close>, \<open>approved_original\<close>,
  \<open>approved_edited\<close> and \<open>featured\<close> and for every file name, the derived key is the
  stage's prefix followed by a file-name portion made from the sanitised name. The
  sanitised name has the length of the input; at each position it keeps a character of
  \<open>[A-Za-z0-9.-]\<close> (the letters, the digits, the dot and the hyphen, as listed in
  \<open>allowed_chars\<close>) and has \<open>_\<close> for any other character. Every character of the
  file-name portion (the sanitised name, and for \<open>approved_edited\<close> the sanitised name with
  \<open>_enhanced.\<close> put in) lies in \<open>[A-Za-z0-9._-]\<close> (as listed in \<open>key_chars\<close>).
\<close>

theorem generateS3Key_sanitized:
  "generateS3Key t ''pending'' u p f =
     ''pending-uploads/'' @ interp u @ ''/property-'' @ interp p @ ''/images/'' @ cleanFileName f
   \<and> generateS3Key t ''approved_original'' u p f =
       ''approved-content/'' @ interp u @ ''/property-'' @ interp p @ ''/original/''
         @ cleanFileName f
   \<and> generateS3Key t ''approved_edited'' u p f =
       ''approved-content/'' @ interp u @ ''/property-'' @ interp p @ ''/edited/''
         @ replace_first CHR ''.'' ''_enhanced.'' (cleanFileName f)
   \<and> generateS3Key t ''featured'' u p f =
       ''featured-showcase/curated-properties/'' @ first_elem (str_split CHR ''T'' t) @ ''_''
         @ cleanFileName f
   \<and> length (cleanFileName f) = length f
   \<and> (\<forall>i<length f.
         cleanFileName f ! i = (if f ! i \<in> set allowed_chars then f ! i else CHR ''_''))
   \<and> list_all key_safe (cleanFileName f)
   \<and> list_all key_safe (replace_first CHR ''.'' ''_enhanced.'' (cleanFileName f))"
proof -
  have "list_all key_safe (replace_first CHR ''.'' ''_enhanced.'' (cleanFileName f))"
    by (rule replace_first_safe [OF key_safe_enhanced cleanFileName_safe])
  then show ?thesis
    by (simp add: generateS3Key_pending generateS3Key_approved_original
          generateS3Key_approved_edited generateS3Key_featured cleanFileName_length
          cleanFileName_nth cleanFileName_safe)
qed

theorem generateS3Key_sanitized_witness:
  "generateS3Key ''2025-08-14T10:15:30.000Z'' ''featured'' (Some ''u1'') (Some ''42'')
       ''my photo(1).jpg'' =
     ''featured-showcase/curated-properties/2025-08-14_my_photo_1_.jpg''
   \<and> (2::nat) < length ''my photo(1).jpg''
   \<and> cleanFileName ''my photo(1).jpg'' ! 2 = CHR ''_''
   \<and> cleanFileName ''my photo(1).jpg'' ! 3 = CHR ''p''
   \<and> list_all key_safe (cleanFileName ''my photo(1).jpg'')
   \<and> cleanFileName ''my photo(1).jpg'' = ''my_photo_1_.jpg''"
proof -
  note th = generateS3Key_sanitized [of "''2025-08-14T10:15:30.000Z''" "Some ''u1''"
      "Some ''42''" "''my photo(1).jpg''"]
  have len: "(2::nat) < length ''my photo(1).jpg''" "(3::nat) < length ''my photo(1).jpg''"
    by simp_all
  from th have nth:
    "\<forall>i<length ''my photo(1).jpg''. cleanFileName ''my photo(1).jpg'' ! i =
       (if ''my photo(1).jpg'' ! i \<in> set allowed_chars then ''my photo(1).jpg'' ! i
        else CHR ''_'')"
    by blast
  have "cleanFileName ''my photo(1).jpg'' ! 2 = CHR ''_''"
    using nth len(1) by (simp add: allowed_chars_def)
  moreover have "cleanFileName ''my photo(1).jpg'' ! 3 = CHR ''p''"
    using nth len(2) by (simp add: allowed_chars_def)
  moreover have "generateS3Key ''2025-08-14T10:15:30.000Z'' ''featured'' (Some ''u1'') (Some ''42'')
       ''my photo(1).jpg'' =
     ''featured-showcase/curated-properties/2025-08-14_my_photo_1_.jpg''"
    using th by (simp add: interp_def first_elem_def cleanFileName_def in_class_def)
  moreover have "list_all key_safe (cleanFileName ''my photo(1).jpg'')"
    using th by blast
  moreover have "cleanFileName ''my photo(1).jpg'' = ''my_photo_1_.jpg''"
    by (simp add: cleanFileName_def in_class_def)
  ultimately show ?thesis using len by blast
qed

text \<open>
  Claim C6. For the stage \<open>approved_edited\<close> the derived key is
  \<open>approved-content/{userId}/property-{propertyId}/edited/\<close> followed by the sanitised
  name in which only the first dot is replaced by \<open>_enhanced.\<close>: when the sanitised name
  has a dot, the text before its first dot (which has no dot) and the text after its
  first dot are kept as they are, later dots included; when it has no dot, it is kept
  unchanged. For \<open>a.b.jpg\<close> the key ends in \<open>a_enhanced.b.jpg\<close>.
\<close>

theorem approved_edited_first_dot:
  "generateS3Key t ''approved_edited'' u p f =
     ''approved-content/'' @ interp u @ ''/property-'' @ interp p @ ''/edited/''
       @ replace_first CHR ''.'' ''_enhanced.'' (cleanFileName f)
   \<and> (CHR ''.'' \<in> set (cleanFileName f) \<longrightarrow>
        replace_first CHR ''.'' ''_enhanced.'' (cleanFileName f) =
          takeWhile (\<lambda>c. c \<noteq> CHR ''.'') (cleanFileName f) @ ''_enhanced.''
            @ tl (dropWhile (\<lambda>c. c \<noteq> CHR ''.'') (cleanFileName f))
        \<and> CHR ''.'' \<notin> set (takeWhile (\<lambda>c. c \<noteq> CHR ''.'') (cleanFileName f))
        \<and> cleanFileName f =
            takeWhile (\<lambda>c. c \<noteq> CHR ''.'') (cleanFileName f) @ ''.''
              @ tl (dropWhile (\<lambda>c. c \<noteq> CHR ''.'') (cleanFileName f)))
   \<and> (CHR ''.'' \<notin> set (cleanFileName f) \<longrightarrow>
        replace_first CHR ''.'' ''_enhanced.'' (cleanFileName f) = cleanFileName f)
   \<and> generateS3Key t ''approved_edited'' (Some ''u1'') (Some ''42'') ''a.b.jpg'' =
       ''approved-content/u1/property-42/edited/a_enhanced.b.jpg''"
proof -
  have no_dot: "CHR ''.'' \<notin> set (takeWhile (\<lambda>c. c \<noteq> CHR ''.'') xs)" for xs :: string
    by (induction xs) auto
  have parts: "CHR ''.'' \<in> set xs \<Longrightarrow>
      xs = takeWhile (\<lambda>c. c \<noteq> CHR ''.'') xs @ ''.'' @ tl (dropWhile (\<lambda>c. c \<noteq> CHR ''.'') xs)"
    for xs :: string
    by (induction xs) auto
  have ex: "generateS3Key t ''approved_edited'' (Some ''u1'') (Some ''42'') ''a.b.jpg'' =
       ''approved-content/u1/property-42/edited/a_enhanced.b.jpg''"
    by (simp add: generateS3Key_approved_edited interp_def cleanFileName_def in_class_def)
  show ?thesis
    using no_dot [of "cleanFileName f"] parts [of "cleanFileName f"] ex
      replace_first_present [of "CHR ''.''" "cleanFileName f" "''_enhanced.''"]
      replace_first_absent [of "CHR ''.''" "cleanFileName f" "''_enhanced.''"]
    by (simp only: generateS3Key_approved_edited simp_thms) blast
qed

theorem approved_edited_first_dot_witness:
  "CHR ''.'' \<in> set (cleanFileName ''my pic.v2.png'')
   \<and> generateS3Key ''2025-08-14T10:15:30.000Z'' ''approved_edited'' (Some ''u7'') (Some ''9'')
       ''my pic.v2.png'' =
     ''approved-content/u7/property-9/edited/my_pic_enhanced.v2.png''
   \<and> CHR ''.'' \<notin> set (cleanFileName ''README'')
   \<and> generateS3Key ''2025-08-14T10:15:30.000Z'' ''approved_edited'' (Some ''u7'') (Some ''9'')
       ''README'' =
     ''approved-content/u7/property-9/edited/README''"
proof -
  have c1: "cleanFileName ''my pic.v2.png'' = ''my_pic.v2.png''"
    by (simp add: cleanFileName_def in_class_def)
  have c2: "cleanFileName ''README'' = ''README''"
    by (simp add: cleanFileName_def in_class_def)
  have d1: "CHR ''.'' \<in> set (cleanFileName ''my pic.v2.png'')"
    by (simp add: c1)
  have d2: "CHR ''.'' \<notin> set (cleanFileName ''README'')"
    by (simp add: c2)
  note t1 = approved_edited_first_dot [of "''2025-08-14T10:15:30.000Z''" "Some ''u7''"
      "Some ''9''" "''my pic.v2.png''"]
  note t2 = approved_edited_first_dot [of "''2025-08-14T10:15:30.000Z''" "Some ''u7''"
      "Some ''9''" "''README''"]
  from t1 d1 have r1: "replace_first CHR ''.'' ''_enhanced.'' (cleanFileName ''my pic.v2.png'') =
          takeWhile (\<lambda>c. c \<noteq> CHR ''.'') (cleanFileName ''my pic.v2.png'') @ ''_enhanced.''
            @ tl (dropWhile (\<lambda>c. c \<noteq> CHR ''.'') (cleanFileName ''my pic.v2.png''))"
    by blast
  from t2 d2 have r2: "replace_first CHR ''.'' ''_enhanced.'' (cleanFileName ''README'') =
      cleanFileName ''README''"
    by blast
  have k1: "generateS3Key ''2025-08-14T10:15:30.000Z'' ''approved_edited'' (Some ''u7'') (Some ''9'')
       ''my pic.v2.png'' =
     ''approved-content/u7/property-9/edited/my_pic_enhanced.v2.png''"
    using t1 by (simp add: r1 c1 interp_def)
  have k2: "generateS3Key ''2025-08-14T10:15:30.000Z'' ''approved_edited'' (Some ''u7'') (Some ''9'')
       ''README'' = ''approved-content/u7/property-9/edited/README''"
    using t2 by (simp add: r2 c2 interp_def)
  show ?thesis using d1 d2 k1 k2 by blast
qed

section \<open>Properties of the session gate\<close>

lemma requireAuth_unauthenticated:
  "\<not> adminAuthenticated s \<Longrightarrow>
     requireAuth now s =
       Respond (res_json 401 [(''error'', JStr ''Authentication required''),
                              (''redirectTo'', JStr ''/admin/login'')]) (Some s)"
  by (simp add: requireAuth_def)

lemma requireAuth_expired:
  "adminAuthenticated s \<Longrightarrow> lastActivity s = Some t \<Longrightarrow> now - t > 7200000 \<Longrightarrow>
     requireAuth now s =
       Respond (res_json 401 [(''error'', JStr ''Session expired''),
                              (''redirectTo'', JStr ''/admin/login'')]) None"
  by (simp add: requireAuth_def idle_too_long_def sessionTimeout_def session_expired_def)

lemma requireAuth_allowed:
  "adminAuthenticated s \<Longrightarrow> lastActivity s = Some t \<Longrightarrow> now - t \<le> 7200000 \<Longrightarrow>
     requireAuth now s = Next (s\<lparr>lastActivity := Some now\<rparr>)"
  by (simp add: requireAuth_def idle_too_long_def sessionTimeout_def)

lemma requireAuth_Next:
  "requireAuth now s = Next s' \<Longrightarrow> s' = s\<lparr>lastActivity := Some now\<rparr> \<and> adminAuthenticated s"
  by (simp add: requireAuth_def split: if_splits)

lemma gate_run_lastActivity:
  "gate_run s nows = Some las \<Longrightarrow> las = map Some nows"
proof (induction nows arbitrary: s las)
  case Nil
  then show ?case by simp
next
  case (Cons now nows)
  from Cons.prems obtain s' las' where
    step: "requireAuth now s = Next s'" and rest: "gate_run s' nows = Some las'"
    and las: "las = lastActivity s' # las'"
    by (auto split: gate.splits option.splits)
  from requireAuth_Next [OF step] have "lastActivity s' = Some now" by simp
  with Cons.IH [OF rest] las show ?case by simp
qed

lemma sorted_map_Some: "sorted (map Some xs) = sorted (xs :: int list)"
  by (induction xs) auto

lemma admin_gate_same_reading: "admin_gate now now s = requireAuth now s"
  by (simp add: admin_gate_def admin_prefilter_def requireAuth_def idle_too_long_def
        split: option.splits)

text \<open>
  Every authenticated session that the code produces has a \<open>lastActivity\<close>: \<open>login\<close> sets
  it together with \<open>adminAuthenticated\<close>, and \<open>requireAuth\<close> sets it again on every request
  it lets through.
\<close>

lemma login_session:
  "fst (snd (login e secrets bcrypt_compare clock b s)) = s
   \<or> (adminAuthenticated (fst (snd (login e secrets bcrypt_compare clock b s)))
      \<and> loginTime (fst (snd (login e secrets bcrypt_compare clock b s))) = Some (clock 0)
      \<and> lastActivity (fst (snd (login e secrets bcrypt_compare clock b s))) = Some (clock 1))"
  by (simp add: login_def split: option.splits prod.splits sum.splits)

lemma login_keeps_lastActivity:
  assumes "adminAuthenticated s \<longrightarrow> lastActivity s \<noteq> None"
  shows "adminAuthenticated (fst (snd (login e secrets bcrypt_compare clock b s))) \<longrightarrow>
         lastActivity (fst (snd (login e secrets bcrypt_compare clock b s))) \<noteq> None"
  using login_session [of e secrets bcrypt_compare clock b s] assms by auto

lemma requireAuth_keeps_lastActivity:
  "requireAuth now s = Next s' \<Longrightarrow> adminAuthenticated s' \<and> lastActivity s' = Some now"
  using requireAuth_Next [of now s s'] by simp

text \<open>
  Claim C1, as the code has it. For every session that reaches \<open>requireAuth\<close> at the
  clock reading \<open>now\<close>: a session that is not authenticated is answered with status 401,
  the error \<open>Authentication required\<close> and the redirect hint \<open>/admin/login\<close>, and is left as
  it is; an authenticated session whose \<open>lastActivity\<close> lies more than 7200000 ms before
  \<open>now\<close> is destroyed and answered with status 401 and the error \<open>Session expired\<close>; any
  other authenticated session with a \<open>lastActivity\<close> goes on to the handler with
  \<open>lastActivity\<close> set to \<open>now\<close>. Over a sequence of requests that are all let through,
  the value of \<open>lastActivity\<close> after each request is the clock reading of that request, so
  the values never decrease exactly when the clock readings, from the session's first
  \<open>lastActivity\<close> on, never decrease: \<open>requireAuth\<close> itself does not compare \<open>now\<close> with
  \<open>lastActivity\<close>. The middleware on \<open>/api/admin/*\<close> that runs before \<open>requireAuth\<close> uses
  the same time limit and the same answer: with the same clock reading, running it first
  changes nothing.
\<close>

theorem requireAuth_gate:
  "(\<not> adminAuthenticated s \<longrightarrow>
      requireAuth now s =
        Respond (res_json 401 [(''error'', JStr ''Authentication required''),
                               (''redirectTo'', JStr ''/admin/login'')]) (Some s))
   \<and> (adminAuthenticated s \<and> lastActivity s = Some t \<and> now - t > 7200000 \<longrightarrow>
      requireAuth now s =
        Respond (res_json 401 [(''error'', JStr ''Session expired''),
                               (''redirectTo'', JStr ''/admin/login'')]) None)
   \<and> (adminAuthenticated s \<and> lastActivity s = Some t \<and> now - t \<le> 7200000 \<longrightarrow>
      requireAuth now s = Next (s\<lparr>lastActivity := Some now\<rparr>))
   \<and> (lastActivity s = Some t \<and> gate_run s nows = Some las \<longrightarrow>
      las = map Some nows \<and> (sorted (lastActivity s # las) \<longleftrightarrow> sorted (t # nows)))
   \<and> admin_gate now now s = requireAuth now s"
proof -
  have "las = map Some nows \<and> (sorted (lastActivity s # las) \<longleftrightarrow> sorted (t # nows))"
    if la: "lastActivity s = Some t" and run: "gate_run s nows = Some las"
  proof -
    have las: "las = map Some nows" by (rule gate_run_lastActivity [OF run])
    have "sorted (map Some (t # nows)) = sorted (t # nows)" by (simp only: sorted_map_Some)
    then show ?thesis using las la by simp
  qed
  then show ?thesis
    using requireAuth_unauthenticated [of s now] requireAuth_expired [of s t now]
      requireAuth_allowed [of s t now] admin_gate_same_reading [of now s]
    by blast
qed

theorem requireAuth_gate_witness:
  "requireAuth 5000 fresh_session =
     Respond (res_json 401 [(''error'', JStr ''Authentication required''),
                            (''redirectTo'', JStr ''/admin/login'')]) (Some fresh_session)
   \<and> requireAuth 7201001
        \<lparr>adminAuthenticated = True, adminUsername = Some ''admin'',
           adminEmail = JStr ''admin@renthabit.com'', loginTime = Some 1000,
           lastActivity = Some 1000\<rparr> =
       Respond (res_json 401 [(''error'', JStr ''Session expired''),
                              (''redirectTo'', JStr ''/admin/login'')]) None
   \<and> requireAuth 7201000
        \<lparr>adminAuthenticated = True, adminUsername = Some ''admin'',
           adminEmail = JStr ''admin@renthabit.com'', loginTime = Some 1000,
           lastActivity = Some 1000\<rparr> =
       Next \<lparr>adminAuthenticated = True, adminUsername = Some ''admin'',
              adminEmail = JStr ''admin@renthabit.com'', loginTime = Some 1000,
              lastActivity = Some 7201000\<rparr>
   \<and> gate_run
        \<lparr>adminAuthenticated = True, adminUsername = Some ''admin'',
           adminEmail = JStr ''admin@renthabit.com'', loginTime = Some 1000,
           lastActivity = Some 1000\<rparr> [5000, 6000, 7000000] =
       Some [Some 5000, Some 6000, Some 7000000]
   \<and> sorted [Some 1000, Some 5000, Some 6000, Some (7000000::int)]"
proof -
  let ?s = "\<lparr>adminAuthenticated = True, adminUsername = Some ''admin'',
           adminEmail = JStr ''admin@renthabit.com'', loginTime = Some 1000,
           lastActivity = Some 1000\<rparr>"
  have u: "\<not> adminAuthenticated fresh_session"
    by (simp add: fresh_session_def)
  have a: "adminAuthenticated ?s" "lastActivity ?s = Some 1000" by simp_all
  have late: "(7201001::int) - 1000 > 7200000" and intime: "(7201000::int) - 1000 \<le> 7200000"
    by simp_all
  have mono: "sorted [1000, 5000, 6000, (7000000::int)]" by simp
  have run: "gate_run ?s [5000, 6000, 7000000] = Some [Some 5000, Some 6000, Some 7000000]"
    by (simp add: requireAuth_def idle_too_long_def sessionTimeout_def)
  from requireAuth_gate [of fresh_session 5000] u
  have c1: "requireAuth 5000 fresh_session =
     Respond (res_json 401 [(''error'', JStr ''Authentication required''),
                            (''redirectTo'', JStr ''/admin/login'')]) (Some fresh_session)"
    by blast
  from requireAuth_gate [of ?s 7201001 1000] a late
  have c2: "requireAuth 7201001 ?s =
       Respond (res_json 401 [(''error'', JStr ''Session expired''),
                              (''redirectTo'', JStr ''/admin/login'')]) None"
    by blast
  from requireAuth_gate [of ?s 7201000 1000] a intime
  have "requireAuth 7201000 ?s = Next (?s\<lparr>lastActivity := Some 7201000\<rparr>)"
    by blast
  then have c3: "requireAuth 7201000 ?s =
       Next \<lparr>adminAuthenticated = True, adminUsername = Some ''admin'',
              adminEmail = JStr ''admin@renthabit.com'', loginTime = Some 1000,
              lastActivity = Some 7201000\<rparr>"
    by simp
  from requireAuth_gate [of ?s _ 1000 "[5000, 6000, 7000000]"
      "[Some 5000, Some 6000, Some 7000000]"] a mono run
  have "sorted (lastActivity ?s # [Some 5000, Some 6000, Some (7000000::int)])"
    by blast
  then have c4: "sorted [Some 1000, Some 5000, Some 6000, Some (7000000::int)]"
    by simp
  show ?thesis using c1 c2 c3 c4 run by blast
qed

text \<open>
  Claim C1 as it is stated fails where a clock reading lies before the \<open>lastActivity\<close> of
  the session: the difference is negative, so the request is let through, and
  \<open>lastActivity\<close> is set back. With \<open>lastActivity\<close> at 1000, the readings 5000 and then
  3000 are both let through, and \<open>lastActivity\<close> goes from 5000 down to 3000.
\<close>

theorem requireAuth_lastActivity_falls:
  "gate_run
     \<lparr>adminAuthenticated = True, adminUsername = Some ''admin'',
        adminEmail = JStr ''admin@renthabit.com'', loginTime = Some 1000,
        lastActivity = Some 1000\<rparr> [5000, 3000] =
     Some [Some 5000, Some 3000]
   \<and> \<not> sorted
         (lastActivity
            \<lparr>adminAuthenticated = True, adminUsername = Some ''admin'',
               adminEmail = JStr ''admin@renthabit.com'', loginTime = Some 1000,
               lastActivity = Some 1000\<rparr> # [Some 5000, Some 3000])
   \<and> requireAuth 3000
        \<lparr>adminAuthenticated = True, adminUsername = Some ''admin'',
           adminEmail = JStr ''admin@renthabit.com'', loginTime = Some 1000,
           lastActivity = Some 5000\<rparr> =
       Next \<lparr>adminAuthenticated = True, adminUsername = Some ''admin'',
              adminEmail = JStr ''admin@renthabit.com'', loginTime = Some 1000,
              lastActivity = Some 3000\<rparr>"
  by (simp add: requireAuth_def idle_too_long_def sessionTimeout_def)

text \<open>
  Claim C10. In \<open>requireAuth\<close>, for an authenticated session that has no \<open>lastActivity\<close>
  but has a \<open>loginTime\<close>, the idle time is measured from \<open>loginTime\<close>: the request goes on
  (and \<open>lastActivity\<close> becomes \<open>now\<close>) when \<open>loginTime\<close> is at most 7200000 ms back, and the
  session is destroyed with a 401 when it is further back. The middleware on
  \<open>/api/admin/*\<close> lets such a session pass, so this is the check that decides.
\<close>

theorem requireAuth_loginTime_fallback:
  assumes "adminAuthenticated s" and "lastActivity s = None" and "loginTime s = Some t"
  shows "(now - t \<le> 7200000 \<longrightarrow> requireAuth now s = Next (s\<lparr>lastActivity := Some now\<rparr>))
    \<and> (now - t > 7200000 \<longrightarrow>
         requireAuth now s =
           Respond (res_json 401 [(''error'', JStr ''Session expired''),
                                  (''redirectTo'', JStr ''/admin/login'')]) None)
    \<and> admin_prefilter now s = Next s"
  using assms
  by (simp add: requireAuth_def admin_prefilter_def idle_too_long_def sessionTimeout_def
        session_expired_def)

theorem requireAuth_loginTime_fallback_witness:
  "requireAuth 7201000
     \<lparr>adminAuthenticated = True, adminUsername = Some ''admin'', adminEmail = JUndefined,
        loginTime = Some 1000, lastActivity = None\<rparr> =
     Next \<lparr>adminAuthenticated = True, adminUsername = Some ''admin'', adminEmail = JUndefined,
            loginTime = Some 1000, lastActivity = Some 7201000\<rparr>
   \<and> requireAuth 7201001
       \<lparr>adminAuthenticated = True, adminUsername = Some ''admin'', adminEmail = JUndefined,
          loginTime = Some 1000, lastActivity = None\<rparr> =
       Respond (res_json 401 [(''error'', JStr ''Session expired''),
                              (''redirectTo'', JStr ''/admin/login'')]) None"
proof -
  let ?s = "\<lparr>adminAuthenticated = True, adminUsername = Some ''admin'',
     adminEmail = JUndefined, loginTime = Some 1000, lastActivity = None\<rparr>"
  have a: "adminAuthenticated ?s" "lastActivity ?s = None" "loginTime ?s = Some 1000"
    by simp_all
  have late: "(7201001::int) - 1000 > 7200000" and intime: "(7201000::int) - 1000 \<le> 7200000"
    by simp_all
  from requireAuth_loginTime_fallback [OF a, of 7201000] intime
  have "requireAuth 7201000 ?s = Next (?s\<lparr>lastActivity := Some 7201000\<rparr>)"
    by blast
  moreover from requireAuth_loginTime_fallback [OF a, of 7201001] late
  have "requireAuth 7201001 ?s =
       Respond (res_json 401 [(''error'', JStr ''Session expired''),
                              (''redirectTo'', JStr ''/admin/login'')]) None"
    by blast
  ultimately show ?thesis by simp
qed

section \<open>Properties of the credentials and of login\<close>

lemma getAdminCredentials_Inr: "\<exists>j. fst (getAdminCredentials e secrets) = Inr j"
  by (simp add: getAdminCredentials_def split: sum.splits)

lemma fallback_is_credentials: "is_credentials (fallback_credentials e)"
  by (simp add: is_credentials_def fallback_credentials_def)

text \<open>
  Claim C7, as the code has it. \<open>getAdminCredentials\<close> never raises to its caller: its
  result is always a value. When the secret-store call is rejected (network failure,
  missing secret) or the secret text does not parse as JSON, the failure is written to
  the console and the result is the fallback built from the environment values or the
  hardcoded defaults (\<open>username\<close>, \<open>passwordHash\<close>, \<open>email\<close>), which is a credentials
  record. When the secret text parses, the parsed value is returned as it is and nothing
  is written to the console.
\<close>

theorem getAdminCredentials_fallback:
  "(\<exists>j. fst (getAdminCredentials e secrets) = Inr j)
   \<and> (secrets (or_default (ADMIN_SECRET_ID e) ''prod/RentHabit/AdminAuth'') = SendFails err
        \<or> secrets (or_default (ADMIN_SECRET_ID e) ''prod/RentHabit/AdminAuth'') = ParseFails err
      \<longrightarrow> getAdminCredentials e secrets =
            (Inr (fallback_credentials e),
             [ConsoleError ''Failed to retrieve admin credentials:'' err]))
   \<and> (secrets (or_default (ADMIN_SECRET_ID e) ''prod/RentHabit/AdminAuth'') = Parsed j
      \<longrightarrow> getAdminCredentials e secrets = (Inr j, []))
   \<and> is_credentials (fallback_credentials e)
   \<and> property (fallback_credentials e) ''username'' =
       Inr (JStr (or_default (ADMIN_USERNAME e) ''admin''))
   \<and> property (fallback_credentials e) ''passwordHash'' =
       Inr (JStr (or_default (ADMIN_PASSWORD_HASH e)
              ''$2b$12$LQv3c1yqBWVHxkd0LHAkCOYz6TtxMQJqhN8/LewdhquMgGFbOvS0a''))
   \<and> property (fallback_credentials e) ''email'' =
       Inr (JStr (or_default (ADMIN_EMAIL e) ''admin@renthabit.com''))"
proof -
  have props: "property (fallback_credentials e) ''username'' =
       Inr (JStr (or_default (ADMIN_USERNAME e) ''admin''))"
    "property (fallback_credentials e) ''passwordHash'' =
       Inr (JStr (or_default (ADMIN_PASSWORD_HASH e)
              ''$2b$12$LQv3c1yqBWVHxkd0LHAkCOYz6TtxMQJqhN8/LewdhquMgGFbOvS0a''))"
    "property (fallback_credentials e) ''email'' =
       Inr (JStr (or_default (ADMIN_EMAIL e) ''admin@renthabit.com''))"
    by (simp_all add: property_def fallback_credentials_def)
  have fails: "getAdminCredentials e secrets =
            (Inr (fallback_credentials e),
             [ConsoleError ''Failed to retrieve admin credentials:'' err])"
    if "secrets (or_default (ADMIN_SECRET_ID e) ''prod/RentHabit/AdminAuth'') = SendFails err
        \<or> secrets (or_default (ADMIN_SECRET_ID e) ''prod/RentHabit/AdminAuth'') = ParseFails err"
    using that by (auto simp add: getAdminCredentials_def fetch_secret_def)
  have parsed: "getAdminCredentials e secrets = (Inr j, [])"
    if "secrets (or_default (ADMIN_SECRET_ID e) ''prod/RentHabit/AdminAuth'') = Parsed j"
    using that by (simp add: getAdminCredentials_def fetch_secret_def)
  show ?thesis
    using getAdminCredentials_Inr [of e secrets] fails parsed fallback_is_credentials [of e] props
    by blast
qed

theorem getAdminCredentials_fallback_witness:
  "getAdminCredentials
     \<lparr>ADMIN_SECRET_ID = None, ADMIN_USERNAME = Some ''ops'', ADMIN_PASSWORD_HASH = None,
        ADMIN_EMAIL = Some []\<rparr>
     (single_secret ''prod/RentHabit/AdminAuth'' (SendFails ''ETIMEDOUT'')) =
     (Inr (JObj [(''username'', JStr ''ops''),
                 (''passwordHash'',
                    JStr ''$2b$12$LQv3c1yqBWVHxkd0LHAkCOYz6TtxMQJqhN8/LewdhquMgGFbOvS0a''),
                 (''email'', JStr ''admin@renthabit.com'')]),
      [ConsoleError ''Failed to retrieve admin credentials:'' ''ETIMEDOUT''])
   \<and> getAdminCredentials
     \<lparr>ADMIN_SECRET_ID = Some ''staging/AdminAuth'', ADMIN_USERNAME = None,
        ADMIN_PASSWORD_HASH = None, ADMIN_EMAIL = None\<rparr>
     (single_secret ''staging/AdminAuth'' (ParseFails ''SyntaxError'')) =
     (Inr (JObj [(''username'', JStr ''admin''),
                 (''passwordHash'',
                    JStr ''$2b$12$LQv3c1yqBWVHxkd0LHAkCOYz6TtxMQJqhN8/LewdhquMgGFbOvS0a''),
                 (''email'', JStr ''admin@renthabit.com'')]),
      [ConsoleError ''Failed to retrieve admin credentials:'' ''SyntaxError''])
   \<and> getAdminCredentials
     \<lparr>ADMIN_SECRET_ID = None, ADMIN_USERNAME = None, ADMIN_PASSWORD_HASH = None,
        ADMIN_EMAIL = None\<rparr>
     (single_secret ''prod/RentHabit/AdminAuth''
        (Parsed (JObj [(''username'', JStr ''root''), (''passwordHash'', JStr ''h'')]))) =
     (Inr (JObj [(''username'', JStr ''root''), (''passwordHash'', JStr ''h'')]), [])"
proof -
  let ?e1 = "\<lparr>ADMIN_SECRET_ID = None, ADMIN_USERNAME = Some ''ops'',
     ADMIN_PASSWORD_HASH = None, ADMIN_EMAIL = Some []\<rparr>"
  let ?e2 = "\<lparr>ADMIN_SECRET_ID = Some ''staging/AdminAuth'', ADMIN_USERNAME = None,
        ADMIN_PASSWORD_HASH = None, ADMIN_EMAIL = None\<rparr>"
  let ?e3 = "\<lparr>ADMIN_SECRET_ID = None, ADMIN_USERNAME = None, ADMIN_PASSWORD_HASH = None,
        ADMIN_EMAIL = None\<rparr>"
  let ?c = "JObj [(''username'', JStr ''root''), (''passwordHash'', JStr ''h'')]"
  have o1: "single_secret ''prod/RentHabit/AdminAuth'' (SendFails ''ETIMEDOUT'')
      (or_default (ADMIN_SECRET_ID ?e1) ''prod/RentHabit/AdminAuth'') = SendFails ''ETIMEDOUT''"
    by (simp add: single_secret_def or_default_def)
  have o2: "single_secret ''staging/AdminAuth'' (ParseFails ''SyntaxError'')
      (or_default (ADMIN_SECRET_ID ?e2) ''prod/RentHabit/AdminAuth'') = ParseFails ''SyntaxError''"
    by (simp add: single_secret_def or_default_def)
  have o3: "single_secret ''prod/RentHabit/AdminAuth'' (Parsed ?c)
      (or_default (ADMIN_SECRET_ID ?e3) ''prod/RentHabit/AdminAuth'') = Parsed ?c"
    by (simp add: single_secret_def or_default_def)
  from getAdminCredentials_fallback
    [of ?e1 "single_secret ''prod/RentHabit/AdminAuth'' (SendFails ''ETIMEDOUT'')" "''ETIMEDOUT''"]
    o1
  have r1: "getAdminCredentials ?e1
      (single_secret ''prod/RentHabit/AdminAuth'' (SendFails ''ETIMEDOUT'')) =
      (Inr (fallback_credentials ?e1),
       [ConsoleError ''Failed to retrieve admin credentials:'' ''ETIMEDOUT''])"
    by blast
  from getAdminCredentials_fallback
    [of ?e2 "single_secret ''staging/AdminAuth'' (ParseFails ''SyntaxError'')" "''SyntaxError''"]
    o2
  have r2: "getAdminCredentials ?e2
      (single_secret ''staging/AdminAuth'' (ParseFails ''SyntaxError'')) =
      (Inr (fallback_credentials ?e2),
       [ConsoleError ''Failed to retrieve admin credentials:'' ''SyntaxError''])"
    by blast
  from getAdminCredentials_fallback
    [of ?e3 "single_secret ''prod/RentHabit/AdminAuth'' (Parsed ?c)" _ ?c] o3
  have r3: "getAdminCredentials ?e3
      (single_secret ''prod/RentHabit/AdminAuth'' (Parsed ?c)) = (Inr ?c, [])"
    by blast
  show ?thesis
    using r1 r2 r3 by (simp add: fallback_credentials_def or_default_def)
qed

text \<open>
  Claim C7 as it is stated fails where the secret text parses as JSON but is not a
  credentials record: for the secret text \<open>{}\<close> the result is the empty object, which has
  neither a \<open>username\<close> nor a \<open>passwordHash\<close>, is not the fallback, and comes with no line
  on the console.
\<close>

theorem getAdminCredentials_unvalidated:
  "getAdminCredentials
     \<lparr>ADMIN_SECRET_ID = None, ADMIN_USERNAME = None, ADMIN_PASSWORD_HASH = None,
        ADMIN_EMAIL = None\<rparr>
     (single_secret ''prod/RentHabit/AdminAuth'' (Parsed (JObj []))) = (Inr (JObj []), [])
   \<and> \<not> is_credentials (JObj [])
   \<and> JObj [] \<noteq>
       fallback_credentials
         \<lparr>ADMIN_SECRET_ID = None, ADMIN_USERNAME = None, ADMIN_PASSWORD_HASH = None,
            ADMIN_EMAIL = None\<rparr>"
  by (simp add: getAdminCredentials_def fetch_secret_def single_secret_def or_default_def
        is_credentials_def fallback_credentials_def)

lemma login_invalid:
  assumes creds: "fst (getAdminCredentials e secrets) = Inr adminCreds"
    and cu: "property adminCreds ''username'' = Inr (JStr cu)"
    and h: "property adminCreds ''passwordHash'' = Inr (JStr h)"
    and ne: "u \<noteq> []" "p \<noteq> []"
    and bad: "trim (toLowerCase u) \<noteq> trim (toLowerCase cu) \<or> \<not> bcrypt_compare p h"
  shows "fst (login e secrets bcrypt_compare clock \<lparr>username = Some u, password = Some p\<rparr> s)
           = invalid_credentials
         \<and> fst (snd (login e secrets bcrypt_compare clock
                        \<lparr>username = Some u, password = Some p\<rparr> s)) = s"
proof -
  obtain out where g: "getAdminCredentials e secrets = (Inr adminCreds, out)"
    using creds by (cases "getAdminCredentials e secrets") simp
  show ?thesis
    using ne bad by (auto simp add: login_def g validUsername_def validPassword_def cu h)
qed

lemma login_response:
  "u \<noteq> [] \<Longrightarrow> p \<noteq> [] \<Longrightarrow>
     fst (login e secrets bcrypt_compare clock \<lparr>username = Some u, password = Some p\<rparr> s) =
       (case fst (getAdminCredentials e secrets) of
          Inl err \<Rightarrow> service_unavailable
        | Inr adminCreds \<Rightarrow>
            (case validUsername adminCreds u of
               Inl err \<Rightarrow> service_unavailable
             | Inr vu \<Rightarrow>
                 (case validPassword bcrypt_compare adminCreds p of
                    Inl err \<Rightarrow> service_unavailable
                  | Inr vp \<Rightarrow>
                      if vu \<and> vp then
                        res_json 200
                          [(''success'', JBool True),
                           (''message'', JStr ''Authentication successful''),
                           (''redirectTo'', JStr ''/admin/dashboard'')]
                      else invalid_credentials)))"
  by (simp add: login_def split: prod.splits sum.splits)

lemma validUsername_throws: "isl (validUsername c u1) = isl (validUsername c u2)"
  by (simp add: validUsername_def split: sum.splits json.splits)

lemma validPassword_throws:
  "isl (validPassword bcrypt_compare c p1) = isl (validPassword bcrypt_compare c p2)"
  by (simp add: validPassword_def split: sum.splits json.splits)

text \<open>
  Whatever the secret store returns, two login attempts with non-empty fields that both
  fail get the same response: whether the handler throws depends on the credentials
  only, never on the name or the password sent.
\<close>

lemma login_failures_indistinguishable:
  assumes ne: "u1 \<noteq> []" "p1 \<noteq> []" "u2 \<noteq> []" "p2 \<noteq> []"
    and f1: "status (fst (login e secrets bcrypt_compare clock1
                \<lparr>username = Some u1, password = Some p1\<rparr> s1)) \<noteq> 200"
    and f2: "status (fst (login e secrets bcrypt_compare clock2
                \<lparr>username = Some u2, password = Some p2\<rparr> s2)) \<noteq> 200"
  shows "fst (login e secrets bcrypt_compare clock1
                \<lparr>username = Some u1, password = Some p1\<rparr> s1) =
         fst (login e secrets bcrypt_compare clock2
                \<lparr>username = Some u2, password = Some p2\<rparr> s2)"
proof (cases "fst (getAdminCredentials e secrets)")
  case (Inl err)
  then show ?thesis by (simp add: login_response ne)
next
  case (Inr c)
  show ?thesis
  proof (cases "isl (validUsername c u1) \<or> isl (validPassword bcrypt_compare c p1)")
    case True
    then have "isl (validUsername c u2) \<or> isl (validPassword bcrypt_compare c p2)"
      using validUsername_throws [of c u1 u2] validPassword_throws [of bcrypt_compare c p1 p2]
      by simp
    with True show ?thesis
      by (auto simp add: login_response ne Inr split: sum.splits)
  next
    case False
    then have "\<not> isl (validUsername c u2)" "\<not> isl (validPassword bcrypt_compare c p2)"
      using validUsername_throws [of c u1 u2] validPassword_throws [of bcrypt_compare c p1 p2]
      by simp_all
    with False f1 f2 show ?thesis
      by (auto simp add: login_response ne Inr res_json_def split: sum.splits if_splits)
  qed
qed

text \<open>
  Claim C2. Let the credentials fetched for the login have the user name \<open>cu\<close> and the
  password hash \<open>h\<close>. Take two login attempts with non-empty fields: one with the correct
  user name (equal to \<open>cu\<close> after lower-casing and trimming) and a password that does not
  match \<open>h\<close>, one with a wrong user name and any password. Both get the same response,
  status 401 with the body \<open>{error: 'Invalid credentials'}\<close>, which does not tell which
  field was wrong, and both leave the session as it was.
\<close>

theorem login_failure_uniform:
  assumes "fst (getAdminCredentials e secrets) = Inr adminCreds"
    and "property adminCreds ''username'' = Inr (JStr cu)"
    and "property adminCreds ''passwordHash'' = Inr (JStr h)"
    and "u1 \<noteq> []" and "p1 \<noteq> []"
    and "trim (toLowerCase u1) = trim (toLowerCase cu)" and "\<not> bcrypt_compare p1 h"
    and "u2 \<noteq> []" and "p2 \<noteq> []"
    and "trim (toLowerCase u2) \<noteq> trim (toLowerCase cu)"
  shows "fst (login e secrets bcrypt_compare clock1
                \<lparr>username = Some u1, password = Some p1\<rparr> s1) =
           res_json 401 [(''error'', JStr ''Invalid credentials'')]
       \<and> fst (login e secrets bcrypt_compare clock2
                \<lparr>username = Some u2, password = Some p2\<rparr> s2) =
           res_json 401 [(''error'', JStr ''Invalid credentials'')]
       \<and> fst (snd (login e secrets bcrypt_compare clock1
                \<lparr>username = Some u1, password = Some p1\<rparr> s1)) = s1
       \<and> fst (snd (login e secrets bcrypt_compare clock2
                \<lparr>username = Some u2, password = Some p2\<rparr> s2)) = s2"
  using login_invalid [OF assms(1-5), of bcrypt_compare clock1 s1]
    login_invalid [OF assms(1-3) assms(8,9), of bcrypt_compare clock2 s2] assms(6,7,10)
  by (simp add: invalid_credentials_def)

theorem login_failure_uniform_witness:
  "fst (login
          \<lparr>ADMIN_SECRET_ID = None, ADMIN_USERNAME = None, ADMIN_PASSWORD_HASH = None,
             ADMIN_EMAIL = None\<rparr>
          (single_secret ''prod/RentHabit/AdminAuth''
             (Parsed (JObj [(''username'', JStr ''Admin''),
                            (''passwordHash'', JStr ''hash-of-s3cret'')])))
          (\<lambda>p h. h = ''hash-of-'' @ p) (\<lambda>k. 1000 + int k)
          \<lparr>username = Some '' ADMIN '', password = Some ''wrong''\<rparr> fresh_session) =
     res_json 401 [(''error'', JStr ''Invalid credentials'')]
   \<and> fst (login
          \<lparr>ADMIN_SECRET_ID = None, ADMIN_USERNAME = None, ADMIN_PASSWORD_HASH = None,
             ADMIN_EMAIL = None\<rparr>
          (single_secret ''prod/RentHabit/AdminAuth''
             (Parsed (JObj [(''username'', JStr ''Admin''),
                            (''passwordHash'', JStr ''hash-of-s3cret'')])))
          (\<lambda>p h. h = ''hash-of-'' @ p) (\<lambda>k. 2000 + int k)
          \<lparr>username = Some ''root'', password = Some ''s3cret''\<rparr> fresh_session) =
     res_json 401 [(''error'', JStr ''Invalid credentials'')]"
proof -
  let ?e = "\<lparr>ADMIN_SECRET_ID = None, ADMIN_USERNAME = None, ADMIN_PASSWORD_HASH = None,
             ADMIN_EMAIL = None\<rparr>"
  let ?creds = "JObj [(''username'', JStr ''Admin''), (''passwordHash'', JStr ''hash-of-s3cret'')]"
  let ?secrets = "single_secret ''prod/RentHabit/AdminAuth'' (Parsed ?creds)"
  let ?bc = "\<lambda>p h :: string. h = ''hash-of-'' @ p"
  have g: "fst (getAdminCredentials ?e ?secrets) = Inr ?creds"
    by (simp add: getAdminCredentials_def fetch_secret_def single_secret_def or_default_def)
  have cu: "property ?creds ''username'' = Inr (JStr ''Admin'')"
    and h: "property ?creds ''passwordHash'' = Inr (JStr ''hash-of-s3cret'')"
    by (simp_all add: property_def)
  have ne: "'' ADMIN '' \<noteq> []" "''wrong'' \<noteq> []" "''root'' \<noteq> []" "''s3cret'' \<noteq> []"
    by simp_all
  have same: "trim (toLowerCase '' ADMIN '') = trim (toLowerCase ''Admin'')"
    by code_simp
  have other: "trim (toLowerCase ''root'') \<noteq> trim (toLowerCase ''Admin'')"
    by code_simp
  have wrong: "\<not> ?bc ''wrong'' ''hash-of-s3cret''"
    by simp
  show ?thesis
    using login_failure_uniform [of ?e ?secrets ?creds "''Admin''" "''hash-of-s3cret''"
        "'' ADMIN ''" "''wrong''" ?bc "''root''" "''s3cret''" "\<lambda>k. 1000 + int k"
        fresh_session "\<lambda>k. 2000 + int k" fresh_session,
        OF g cu h ne(1) ne(2) same wrong ne(3) ne(4) other]
    by simp
qed

section \<open>Properties of the content handlers\<close>

lemma admin_gate_Next:
  "admin_gate now1 now2 s = Next s' \<Longrightarrow>
     s' = s\<lparr>lastActivity := Some now2\<rparr> \<and> adminAuthenticated s"
  by (auto simp add: admin_gate_def admin_prefilter_def split: if_splits dest: requireAuth_Next)

lemma str_split_first: "c \<notin> set d \<Longrightarrow> str_split c (d @ c # rest) = d # str_split c rest"
  by (induction d) auto

lemma guarded_Next:
  "admin_gate now1 now2 s = Next s' \<Longrightarrow>
     guarded now1 now2 s handler st = (fst (handler s' st), Some s', snd (handler s' st))"
  by (simp add: guarded_def split: prod.splits)

lemma photo_name:
  "interp (pop (str_split CHR ''/'' ''pending-uploads/u1/property-42/images/photo.jpg'')) =
     ''photo.jpg''"
  by (simp add: interp_def)

lemma photo_clean: "cleanFileName ''photo.jpg'' = ''photo.jpg''"
  by (simp add: cleanFileName_def in_class_def)

lemma photo_originalKey:
  "generateS3Key t ''approved_original'' (Some ''u1'') (Some ''42'') ''photo.jpg'' =
     ''approved-content/u1/property-42/original/photo.jpg''"
  by (simp add: generateS3Key_def photo_clean interp_def)

lemma photo_featuredKey:
  "CHR ''T'' \<notin> set d \<Longrightarrow>
   generateS3Key (d @ CHR ''T'' # rest) ''featured'' (Some ''u1'') (Some ''42'') ''photo.jpg'' =
     ''featured-showcase/curated-properties/'' @ d @ ''_photo.jpg''"
  by (simp add: generateS3Key_def photo_clean str_split_first first_elem_def)

lemma approve_photo:
  "approve outage clock s cid
     \<lparr>s3Key = Some ''pending-uploads/u1/property-42/images/photo.jpg'', userId = Some ''u1'',
        propertyId = Some ''42'', adminNotes = notes\<rparr> st =
   (case send outage
           (CopyObjectCommand ''renthabit-media''
              ''renthabit-media/pending-uploads/u1/property-42/images/photo.jpg''
              ''approved-content/u1/property-42/original/photo.jpg''
              [(''status'', JStr ''approved''),
               (''approvedDate'', JStr (clock 1)),
               (''adminNotes'', JStr (or_default notes [])),
               (''approvedBy'', opt_str (adminUsername s))]) st of
      (Some err, st') \<Rightarrow> (res_json 500 [(''error'', JStr ''Failed to approve content'')], st')
    | (None, st') \<Rightarrow>
        (res_json 200
           [(''success'', JBool True),
            (''message'', JStr ''Content approved successfully''),
            (''originalKey'', JStr ''approved-content/u1/property-42/original/photo.jpg''),
            (''approvedBy'', opt_str (adminUsername s)),
            (''s3Bucket'', JStr ''renthabit-media'')], st'))"
  unfolding approve_def
  by (simp only: content_body.simps approve_body.simps option.case list.simps if_False
        photo_name photo_originalKey Let_def S3_BUCKETS_media_def)
     simp


lemma send_copy_cases:
  "send outage (CopyObjectCommand b src k m) st =
     (if outage (length (issued st)) then
        (Some ServiceFailure, st\<lparr>issued := issued st @ [CopyObjectCommand b src k m]\<rparr>)
      else case objects st src of
        None \<Rightarrow> (Some NoSuchKey, st\<lparr>issued := issued st @ [CopyObjectCommand b src k m]\<rparr>)
      | Some obj \<Rightarrow>
          (None, st\<lparr>issued := issued st @ [CopyObjectCommand b src k m],
                    objects := (objects st)(b @ ''/'' @ k \<mapsto> obj)\<rparr>))"
  by (simp add: send_def split: option.splits)

text \<open>
  Claim C3. Approve with \<open>s3Key = pending-uploads/u1/property-42/images/photo.jpg\<close>,
  \<open>userId = u1\<close>, \<open>propertyId = 42\<close> and a session that the gate lets through issues one
  command to the object store: a copy inside the media bucket from the object under
  \<open>s3Key\<close> to the key \<open>approved-content/u1/property-42/original/photo.jpg\<close>. The object
  under \<open>s3Key\<close> is as it was afterwards, and so is every other object but the
  destination. When the store carries out the copy, the response is a 200 whose
  \<open>originalKey\<close> is that key, and the destination holds the source object.
\<close>

theorem approve_original_key:
  assumes "admin_gate now1 now2 s = Next s'"
  shows
    "let src = ''renthabit-media/pending-uploads/u1/property-42/images/photo.jpg'';
         originalKey = ''approved-content/u1/property-42/original/photo.jpg'';
         res = post_approve now1 now2 outage clock s contentId
                 \<lparr>s3Key = Some ''pending-uploads/u1/property-42/images/photo.jpg'',
                    userId = Some ''u1'', propertyId = Some ''42'', adminNotes = notes\<rparr> st;
         st' = snd (snd res)
     in issued st' = issued st @
          [CopyObjectCommand ''renthabit-media'' src originalKey
             [(''status'', JStr ''approved''),
              (''approvedDate'', JStr (clock 1)),
              (''adminNotes'', JStr (or_default notes [])),
              (''approvedBy'', opt_str (adminUsername s'))]]
        \<and> objects st' src = objects st src
        \<and> (\<forall>path. path \<noteq> ''renthabit-media/'' @ originalKey \<longrightarrow>
              objects st' path = objects st path)
        \<and> (\<not> outage (length (issued st)) \<and> objects st src = Some obj \<longrightarrow>
              fst res =
                res_json 200
                  [(''success'', JBool True),
                   (''message'', JStr ''Content approved successfully''),
                   (''originalKey'', JStr originalKey),
                   (''approvedBy'', opt_str (adminUsername s')),
                   (''s3Bucket'', JStr ''renthabit-media'')]
              \<and> objects st' (''renthabit-media/'' @ originalKey) = Some obj)"
  unfolding Let_def post_approve_def guarded_Next [OF assms] approve_photo send_copy_cases
  by (simp split: option.splits)

theorem approve_original_key_witness:
  "fst (post_approve 2000 2001 (\<lambda>n. False) (\<lambda>k. ''2025-08-14T10:15:30.000Z'')
          \<lparr>adminAuthenticated = True, adminUsername = Some ''admin'',
             adminEmail = JStr ''admin@renthabit.com'', loginTime = Some 1000,
             lastActivity = Some 1000\<rparr>
          ''c-17''
          \<lparr>s3Key = Some ''pending-uploads/u1/property-42/images/photo.jpg'',
             userId = Some ''u1'', propertyId = Some ''42'', adminNotes = None\<rparr>
          \<lparr>objects =
             [''renthabit-media/pending-uploads/u1/property-42/images/photo.jpg'' \<mapsto> ''JPEG''],
           issued = []\<rparr>) =
     res_json 200
       [(''success'', JBool True),
        (''message'', JStr ''Content approved successfully''),
        (''originalKey'', JStr ''approved-content/u1/property-42/original/photo.jpg''),
        (''approvedBy'', JStr ''admin''),
        (''s3Bucket'', JStr ''renthabit-media'')]
   \<and> objects (snd (snd (post_approve 2000 2001 (\<lambda>n. False)
          (\<lambda>k. ''2025-08-14T10:15:30.000Z'')
          \<lparr>adminAuthenticated = True, adminUsername = Some ''admin'',
             adminEmail = JStr ''admin@renthabit.com'', loginTime = Some 1000,
             lastActivity = Some 1000\<rparr>
          ''c-17''
          \<lparr>s3Key = Some ''pending-uploads/u1/property-42/images/photo.jpg'',
             userId = Some ''u1'', propertyId = Some ''42'', adminNotes = None\<rparr>
          \<lparr>objects =
             [''renthabit-media/pending-uploads/u1/property-42/images/photo.jpg'' \<mapsto> ''JPEG''],
           issued = []\<rparr>)))
       ''renthabit-media/approved-content/u1/property-42/original/photo.jpg'' = Some ''JPEG''
   \<and> objects (snd (snd (post_approve 2000 2001 (\<lambda>n. False)
          (\<lambda>k. ''2025-08-14T10:15:30.000Z'')
          \<lparr>adminAuthenticated = True, adminUsername = Some ''admin'',
             adminEmail = JStr ''admin@renthabit.com'', loginTime = Some 1000,
             lastActivity = Some 1000\<rparr>
          ''c-17''
          \<lparr>s3Key = Some ''pending-uploads/u1/property-42/images/photo.jpg'',
             userId = Some ''u1'', propertyId = Some ''42'', adminNotes = None\<rparr>
          \<lparr>objects =
             [''renthabit-media/pending-uploads/u1/property-42/images/photo.jpg'' \<mapsto> ''JPEG''],
           issued = []\<rparr>)))
       ''renthabit-media/pending-uploads/u1/property-42/images/photo.jpg'' = Some ''JPEG''"
proof -
  let ?s = "\<lparr>adminAuthenticated = True, adminUsername = Some ''admin'',
             adminEmail = JStr ''admin@renthabit.com'', loginTime = Some 1000,
             lastActivity = Some 1000\<rparr>"
  let ?st = "\<lparr>objects =
             [''renthabit-media/pending-uploads/u1/property-42/images/photo.jpg'' \<mapsto> ''JPEG''],
           issued = []\<rparr>"
  have gate: "admin_gate 2000 2001 ?s = Next (?s\<lparr>lastActivity := Some 2001\<rparr>)"
    by (simp add: admin_gate_def admin_prefilter_def requireAuth_def idle_too_long_def
          sessionTimeout_def)
  have ok: "\<not> (\<lambda>n::nat. False) (length (issued ?st))"
    "objects ?st ''renthabit-media/pending-uploads/u1/property-42/images/photo.jpg'' =
       Some ''JPEG''"
    by simp_all
  show ?thesis
    using approve_original_key [OF gate, of "\<lambda>n. False" "\<lambda>k. ''2025-08-14T10:15:30.000Z''"
        "''c-17''" None ?st "''JPEG''"] ok
    by (simp add: Let_def opt_str_def)
qed


text \<open>
  Claim C8. Reject sends no command to the object store: after the request the store,
  its objects in both buckets and the list of commands it has received, is the one
  before the request, whatever the session. For a session that the gate lets through,
  the response is the 200 record with \<open>contentId\<close>, \<open>rejectedBy\<close> (the user name of the
  session), \<open>rejectedAt\<close> and the reason given, next to the \<open>success\<close> flag and the
  message; for any other session it is the answer of the gate.
\<close>

theorem reject_no_store_call:
  "snd (snd (post_reject now1 now2 clock s contentId reason st)) = st
   \<and> (admin_gate now1 now2 s = Respond r so \<longrightarrow>
        post_reject now1 now2 clock s contentId reason st = (r, so, st))
   \<and> (admin_gate now1 now2 s = Next s' \<longrightarrow>
        adminUsername s' = adminUsername s
        \<and> post_reject now1 now2 clock s contentId reason st =
            (res_json 200
               [(''success'', JBool True),
                (''message'', JStr ''Content rejected''),
                (''contentId'', JStr contentId),
                (''rejectedBy'', opt_str (adminUsername s)),
                (''rejectedAt'', JStr (clock 0)),
                (''reason'', opt_str reason)],
             Some s', st))"
proof -
  have "snd (snd (post_reject now1 now2 clock s contentId reason st)) = st"
    by (cases "admin_gate now1 now2 s")
       (simp_all add: post_reject_def guarded_def reject_def)
  moreover have "post_reject now1 now2 clock s contentId reason st = (r, so, st)"
    if "admin_gate now1 now2 s = Respond r so"
    using that by (simp add: post_reject_def guarded_def)
  moreover have "adminUsername s' = adminUsername s
        \<and> post_reject now1 now2 clock s contentId reason st =
            (res_json 200
               [(''success'', JBool True),
                (''message'', JStr ''Content rejected''),
                (''contentId'', JStr contentId),
                (''rejectedBy'', opt_str (adminUsername s)),
                (''rejectedAt'', JStr (clock 0)),
                (''reason'', opt_str reason)],
             Some s', st)"
    if "admin_gate now1 now2 s = Next s'"
    using that admin_gate_Next [OF that]
    by (simp add: post_reject_def guarded_def reject_def)
  ultimately show ?thesis by blast
qed

theorem reject_no_store_call_witness:
  "post_reject 2000 2001 (\<lambda>k. ''2025-08-14T10:15:30.000Z'')
     \<lparr>adminAuthenticated = True, adminUsername = Some ''admin'',
        adminEmail = JStr ''admin@renthabit.com'', loginTime = Some 1000,
        lastActivity = Some 1000\<rparr>
     ''c-17'' (Some ''blurry'')
     \<lparr>objects =
        [''renthabit-media/pending-uploads/u1/property-42/images/photo.jpg'' \<mapsto> ''JPEG''],
      issued = []\<rparr> =
   (res_json 200
      [(''success'', JBool True),
       (''message'', JStr ''Content rejected''),
       (''contentId'', JStr ''c-17''),
       (''rejectedBy'', JStr ''admin''),
       (''rejectedAt'', JStr ''2025-08-14T10:15:30.000Z''),
       (''reason'', JStr ''blurry'')],
    Some \<lparr>adminAuthenticated = True, adminUsername = Some ''admin'',
        adminEmail = JStr ''admin@renthabit.com'', loginTime = Some 1000,
        lastActivity = Some 2001\<rparr>,
    \<lparr>objects =
        [''renthabit-media/pending-uploads/u1/property-42/images/photo.jpg'' \<mapsto> ''JPEG''],
      issued = []\<rparr>)
   \<and> post_reject 2000 2001 (\<lambda>k. ''2025-08-14T10:15:30.000Z'') fresh_session
     ''c-17'' (Some ''blurry'') \<lparr>objects = Map.empty, issued = []\<rparr> =
     (res_json 401 [(''error'', JStr ''Authentication required''),
                    (''redirectTo'', JStr ''/admin/login'')],
      Some fresh_session, \<lparr>objects = Map.empty, issued = []\<rparr>)"
proof -
  let ?s = "\<lparr>adminAuthenticated = True, adminUsername = Some ''admin'',
             adminEmail = JStr ''admin@renthabit.com'', loginTime = Some 1000,
             lastActivity = Some 1000\<rparr>"
  let ?st = "\<lparr>objects =
             [''renthabit-media/pending-uploads/u1/property-42/images/photo.jpg'' \<mapsto> ''JPEG''],
           issued = []\<rparr>"
  have gate: "admin_gate 2000 2001 ?s = Next (?s\<lparr>lastActivity := Some 2001\<rparr>)"
    by (simp add: admin_gate_def admin_prefilter_def requireAuth_def idle_too_long_def
          sessionTimeout_def)
  have closed: "admin_gate 2000 2001 fresh_session =
      Respond (res_json 401 [(''error'', JStr ''Authentication required''),
                    (''redirectTo'', JStr ''/admin/login'')]) (Some fresh_session)"
    by (simp add: admin_gate_def admin_prefilter_def requireAuth_def fresh_session_def)
  from reject_no_store_call [of 2000 2001 "\<lambda>k. ''2025-08-14T10:15:30.000Z''" ?s "''c-17''"
      "Some ''blurry''" ?st _ _ "?s\<lparr>lastActivity := Some 2001\<rparr>"] gate
  have a: "post_reject 2000 2001 (\<lambda>k. ''2025-08-14T10:15:30.000Z'') ?s ''c-17''
      (Some ''blurry'') ?st =
            (res_json 200
               [(''success'', JBool True),
                (''message'', JStr ''Content rejected''),
                (''contentId'', JStr ''c-17''),
                (''rejectedBy'', opt_str (adminUsername ?s)),
                (''rejectedAt'', JStr ''2025-08-14T10:15:30.000Z''),
                (''reason'', opt_str (Some ''blurry''))],
             Some (?s\<lparr>lastActivity := Some 2001\<rparr>), ?st)"
    by blast
  from reject_no_store_call [of 2000 2001 "\<lambda>k. ''2025-08-14T10:15:30.000Z''" fresh_session
      "''c-17''" "Some ''blurry''" "\<lparr>objects = Map.empty, issued = []\<rparr>"
      "res_json 401 [(''error'', JStr ''Authentication required''),
                    (''redirectTo'', JStr ''/admin/login'')]" "Some fresh_session"] closed
  have b: "post_reject 2000 2001 (\<lambda>k. ''2025-08-14T10:15:30.000Z'') fresh_session
     ''c-17'' (Some ''blurry'') \<lparr>objects = Map.empty, issued = []\<rparr> =
     (res_json 401 [(''error'', JStr ''Authentication required''),
                    (''redirectTo'', JStr ''/admin/login'')],
      Some fresh_session, \<lparr>objects = Map.empty, issued = []\<rparr>)"
    by blast
  show ?thesis using a b by (simp add: opt_str_def)
qed

text \<open>
  Claim C9. Feature sends its copies in a fixed order: first the copy to the featured
  key in the media bucket and, only when the store has carried that one out, the copy to
  the public bucket. When the source object exists, the store carries out the first copy
  and the second one fails, the response is the 500 \<open>Failed to feature content\<close>, and the
  store differs from the one before the request only by the featured copy in the media
  bucket, which stays there: nothing is written in the public bucket, and no command
  after the failed copy removes the first one.
\<close>

theorem feature_no_rollback:
  assumes "admin_gate now1 now2 s = Next s'"
    and "s3Key b = Some k" and "k \<noteq> []"
  shows
    "let fileName = interp (pop (str_split CHR ''/'' k));
         featuredKey = generateS3Key (clock 0) ''featured'' (userId b) (propertyId b) fileName;
         publicKey = ''assets/properties/'' @ interp (propertyId b) @ ''/'' @ fileName;
         copy1 =
           CopyObjectCommand ''renthabit-media'' (''renthabit-media/'' @ k) featuredKey
             [(''status'', JStr ''featured''),
              (''featuredDate'', JStr (clock 1)),
              (''position'', JStr (case position b of None \<Rightarrow> ''gallery'' | Some v \<Rightarrow> v)),
              (''priority'', JStr (show_int (case priority b of None \<Rightarrow> 1 | Some n \<Rightarrow> n))),
              (''featuredBy'', opt_str (adminUsername s'))];
         copy2 =
           CopyObjectCommand ''renthabit-web-prod'' (''renthabit-media/'' @ k) publicKey
             [(''source'', JStr ''featured''), (''featuredDate'', JStr (clock 2))];
         res = post_feature now1 now2 outage clock s contentId b st;
         st' = snd (snd res)
     in issued st' =
          issued st @
            (if outage (length (issued st)) \<or> objects st (''renthabit-media/'' @ k) = None
             then [copy1] else [copy1, copy2])
        \<and> (objects st (''renthabit-media/'' @ k) = Some obj
             \<and> \<not> outage (length (issued st)) \<and> outage (Suc (length (issued st))) \<longrightarrow>
            fst res = res_json 500 [(''error'', JStr ''Failed to feature content'')]
            \<and> issued st' = issued st @ [copy1, copy2]
            \<and> objects st' = (objects st)(''renthabit-media/'' @ featuredKey \<mapsto> obj)
            \<and> objects st' (''renthabit-media/'' @ featuredKey) = Some obj
            \<and> objects st' (''renthabit-web-prod/'' @ publicKey) =
                objects st (''renthabit-web-prod/'' @ publicKey))"
  using assms(2,3)
  unfolding Let_def post_feature_def guarded_Next [OF assms(1)]
  by (cases "objects st (''renthabit-media/'' @ k)")
     (simp_all add: feature_def send_def Let_def S3_BUCKETS_media_def S3_BUCKETS_web_def)

theorem feature_no_rollback_witness:
  "fst (post_feature 2000 2001 (\<lambda>n. n = 1) (\<lambda>k. ''2025-08-14T10:15:30.000Z'')
          \<lparr>adminAuthenticated = True, adminUsername = Some ''admin'',
             adminEmail = JStr ''admin@renthabit.com'', loginTime = Some 1000,
             lastActivity = Some 1000\<rparr>
          ''c-17''
          \<lparr>s3Key = Some ''pending-uploads/u1/property-42/images/photo.jpg'',
             userId = Some ''u1'', propertyId = Some ''42'', priority = None,
             position = None\<rparr>
          \<lparr>objects =
             [''renthabit-media/pending-uploads/u1/property-42/images/photo.jpg'' \<mapsto> ''JPEG''],
           issued = []\<rparr>) =
     res_json 500 [(''error'', JStr ''Failed to feature content'')]
   \<and> objects (snd (snd (post_feature 2000 2001 (\<lambda>n. n = 1)
          (\<lambda>k. ''2025-08-14T10:15:30.000Z'')
          \<lparr>adminAuthenticated = True, adminUsername = Some ''admin'',
             adminEmail = JStr ''admin@renthabit.com'', loginTime = Some 1000,
             lastActivity = Some 1000\<rparr>
          ''c-17''
          \<lparr>s3Key = Some ''pending-uploads/u1/property-42/images/photo.jpg'',
             userId = Some ''u1'', propertyId = Some ''42'', priority = None,
             position = None\<rparr>
          \<lparr>objects =
             [''renthabit-media/pending-uploads/u1/property-42/images/photo.jpg'' \<mapsto> ''JPEG''],
           issued = []\<rparr>)))
       ''renthabit-media/featured-showcase/curated-properties/2025-08-14_photo.jpg'' =
     Some ''JPEG''"
proof -
  let ?s = "\<lparr>adminAuthenticated = True, adminUsername = Some ''admin'',
             adminEmail = JStr ''admin@renthabit.com'', loginTime = Some 1000,
             lastActivity = Some 1000\<rparr>"
  let ?b = "\<lparr>s3Key = Some ''pending-uploads/u1/property-42/images/photo.jpg'',
             userId = Some ''u1'', propertyId = Some ''42'', priority = None,
             position = None\<rparr>"
  let ?st = "\<lparr>objects =
             [''renthabit-media/pending-uploads/u1/property-42/images/photo.jpg'' \<mapsto> ''JPEG''],
           issued = []\<rparr>"
  have gate: "admin_gate 2000 2001 ?s = Next (?s\<lparr>lastActivity := Some 2001\<rparr>)"
    by (simp add: admin_gate_def admin_prefilter_def requireAuth_def idle_too_long_def
          sessionTimeout_def)
  have key: "s3Key ?b = Some ''pending-uploads/u1/property-42/images/photo.jpg''"
    "''pending-uploads/u1/property-42/images/photo.jpg'' \<noteq> []"
    by simp_all
  have src: "objects ?st
      (''renthabit-media/'' @ ''pending-uploads/u1/property-42/images/photo.jpg'') = Some ''JPEG''"
    by simp
  have first_ok: "\<not> (\<lambda>n::nat. n = 1) (length (issued ?st))"
    and second_fails: "(\<lambda>n::nat. n = 1) (Suc (length (issued ?st)))"
    by simp_all
  have fk: "generateS3Key ''2025-08-14T10:15:30.000Z'' ''featured'' (userId ?b) (propertyId ?b)
      ''photo.jpg'' = ''featured-showcase/curated-properties/2025-08-14_photo.jpg''"
    using photo_featuredKey [of "''2025-08-14''" "''10:15:30.000Z''"] by simp
  note th = feature_no_rollback [where clock = "\<lambda>k. ''2025-08-14T10:15:30.000Z''"
      and outage = "\<lambda>n. n = 1" and contentId = "''c-17''" and st = ?st and obj = "''JPEG''",
      OF gate key, unfolded Let_def photo_name fk]
  from th src first_ok second_fails show ?thesis by simp
qed

text \<open>
  Claim C4. Feature with \<open>s3Key = pending-uploads/u1/property-42/images/photo.jpg\<close>,
  \<open>userId = u1\<close>, \<open>propertyId = 42\<close> and a session that the gate lets through, at a clock
  whose ISO text is the date \<open>d\<close> (the text before the \<open>T\<close>; \<open>toISOString\<close> gives the UTC
  date there as \<open>YYYY-MM-DD\<close>) followed by the time: the copy in the media bucket goes to
  the key \<open>featured-showcase/curated-properties/\<close> + \<open>d\<close> + \<open>_photo.jpg\<close>, and the copy to
  the public bucket, sent when the first one succeeded, goes to the key
  \<open>assets/properties/42/photo.jpg\<close>. When the store carries out both copies, the response
  is a 200 with both keys and with the names of both buckets, and both destinations hold
  the source object.
\<close>

theorem feature_keys:
  assumes "admin_gate now1 now2 s = Next s'"
    and "clock 0 = d @ CHR ''T'' # rest" and "CHR ''T'' \<notin> set d"
  shows
    "let src = ''renthabit-media/pending-uploads/u1/property-42/images/photo.jpg'';
         featuredKey = ''featured-showcase/curated-properties/'' @ d @ ''_photo.jpg'';
         publicKey = ''assets/properties/42/photo.jpg'';
         copy1 =
           CopyObjectCommand ''renthabit-media'' src featuredKey
             [(''status'', JStr ''featured''),
              (''featuredDate'', JStr (clock 1)),
              (''position'', JStr (case pos of None \<Rightarrow> ''gallery'' | Some v \<Rightarrow> v)),
              (''priority'', JStr (show_int (case pri of None \<Rightarrow> 1 | Some n \<Rightarrow> n))),
              (''featuredBy'', opt_str (adminUsername s'))];
         copy2 =
           CopyObjectCommand ''renthabit-web-prod'' src publicKey
             [(''source'', JStr ''featured''), (''featuredDate'', JStr (clock 2))];
         res = post_feature now1 now2 outage clock s contentId
                 \<lparr>s3Key = Some ''pending-uploads/u1/property-42/images/photo.jpg'',
                    userId = Some ''u1'', propertyId = Some ''42'', priority = pri,
                    position = pos\<rparr> st;
         st' = snd (snd res)
     in issued st' =
          issued st @
            (if outage (length (issued st)) \<or> objects st src = None then [copy1]
             else [copy1, copy2])
        \<and> (\<not> outage (length (issued st)) \<and> \<not> outage (Suc (length (issued st)))
             \<and> objects st src = Some obj \<longrightarrow>
            fst res =
              res_json 200
                [(''success'', JBool True),
                 (''message'', JStr ''Content featured successfully''),
                 (''featuredKey'', JStr featuredKey),
                 (''publicKey'', JStr publicKey),
                 (''featuredBy'', opt_str (adminUsername s')),
                 (''buckets'',
                    JObj [(''media'', JStr ''renthabit-media''),
                          (''web'', JStr ''renthabit-web-prod'')])]
            \<and> objects st' =
                (objects st)(''renthabit-media/'' @ featuredKey \<mapsto> obj,
                             ''renthabit-web-prod/'' @ publicKey \<mapsto> obj))"
proof -
  have fk: "generateS3Key (clock 0) ''featured'' (Some ''u1'') (Some ''42'') ''photo.jpg'' =
      ''featured-showcase/curated-properties/'' @ d @ ''_photo.jpg''"
    using photo_featuredKey [OF assms(3), of rest] assms(2) by simp
  show ?thesis
    unfolding Let_def post_feature_def guarded_Next [OF assms(1)]
    by (cases "objects st ''renthabit-media/pending-uploads/u1/property-42/images/photo.jpg''")
       (simp_all add: feature_def send_def Let_def S3_BUCKETS_media_def S3_BUCKETS_web_def
          photo_name fk interp_def)
qed

theorem feature_keys_witness:
  "fst (post_feature 2000 2001 (\<lambda>n. False) (\<lambda>k. ''2025-08-14T10:15:30.000Z'')
          \<lparr>adminAuthenticated = True, adminUsername = Some ''admin'',
             adminEmail = JStr ''admin@renthabit.com'', loginTime = Some 1000,
             lastActivity = Some 1000\<rparr>
          ''c-17''
          \<lparr>s3Key = Some ''pending-uploads/u1/property-42/images/photo.jpg'',
             userId = Some ''u1'', propertyId = Some ''42'', priority = None,
             position = None\<rparr>
          \<lparr>objects =
             [''renthabit-media/pending-uploads/u1/property-42/images/photo.jpg'' \<mapsto> ''JPEG''],
           issued = []\<rparr>) =
     res_json 200
       [(''success'', JBool True),
        (''message'', JStr ''Content featured successfully''),
        (''featuredKey'', JStr ''featured-showcase/curated-properties/2025-08-14_photo.jpg''),
        (''publicKey'', JStr ''assets/properties/42/photo.jpg''),
        (''featuredBy'', JStr ''admin''),
        (''buckets'',
           JObj [(''media'', JStr ''renthabit-media''), (''web'', JStr ''renthabit-web-prod'')])]"
proof -
  let ?s = "\<lparr>adminAuthenticated = True, adminUsername = Some ''admin'',
             adminEmail = JStr ''admin@renthabit.com'', loginTime = Some 1000,
             lastActivity = Some 1000\<rparr>"
  let ?st = "\<lparr>objects =
             [''renthabit-media/pending-uploads/u1/property-42/images/photo.jpg'' \<mapsto> ''JPEG''],
           issued = []\<rparr>"
  have gate: "admin_gate 2000 2001 ?s = Next (?s\<lparr>lastActivity := Some 2001\<rparr>)"
    by (simp add: admin_gate_def admin_prefilter_def requireAuth_def idle_too_long_def
          sessionTimeout_def)
  have reading: "(\<lambda>k::nat. ''2025-08-14T10:15:30.000Z'') 0 =
      ''2025-08-14'' @ CHR ''T'' # ''10:15:30.000Z''"
    by simp
  have date: "CHR ''T'' \<notin> set ''2025-08-14''"
    by simp
  have ok: "\<not> (\<lambda>n::nat. False) (length (issued ?st))"
    "\<not> (\<lambda>n::nat. False) (Suc (length (issued ?st)))"
    "objects ?st ''renthabit-media/pending-uploads/u1/property-42/images/photo.jpg'' =
       Some ''JPEG''"
    by simp_all
  show ?thesis
    using feature_keys [OF gate reading date, of None None "\<lambda>n. False" "''c-17''" ?st "''JPEG''"]
      ok
    by (simp add: Let_def opt_str_def)
qed

end
